theory Spec2Isabelle
  imports Complex_Main "HOL-Library.Sublist"
begin

section \<open>Values of the expression language\<close>

text \<open>
  The engine computes with Go values of type \<open>interface{}\<close>. The model covers the dynamic
  types that the modelled operators distinguish: \<open>nil\<close>, \<open>bool\<close>, \<open>float64\<close>,
  \<open>string\<close>, the generic list \<open>[]interface{}\<close>, the generic map
  \<open>map[string]interface{}\<close>, and the two typed slices that the filter operators accept,
  \<open>[][]interface{}\<close> and \<open>[]map[string]interface{}\<close>. Slices and maps are non-nil.

  A finite \<open>float64\<close> is modelled by the real number it denotes and its arithmetic is
  exact; the two infinities and NaN are separate values, so that division by zero behaves
  as in Go (it yields an infinity or NaN, never an error). Rounding, overflow and the sign
  of zero are not modelled; binary64 arithmetic is exact on the small integers that
  occur in the stated properties.
\<close>

datatype float64 = Fin real | PInf | NInf | NaN

datatype val =
    VNil
  | VBool bool
  | VNum float64
  | VStr string
  | VList "val list"
  | VMap "(string \<times> val) list"
  | VSlices "val list list"
  | VMaps "(string \<times> val) list list"

text \<open>
  Errors are values. \<open>TypeError\<close> carries the Go type name of the offending value (as
  \<open>%T\<close> prints it), \<open>UnknownParameter\<close> the dotted key path, \<open>Expected\<close> the unit
  the parser was scanning, \<open>UnknownOperator\<close> the operator text, \<open>CouldNotCall\<close> the
  name of a called variable, \<open>SyntaxError\<close> the text that \<open>strconv\<close> rejects,
  \<open>Errorf\<close> the message of another \<open>fmt.Errorf\<close>. \<open>Cancelled\<close> is the error of a
  cancelled context (\<open>context.Canceled\<close>). \<open>Panic\<close> is a Go run-time panic.
  \<open>OutOfFuel\<close> is the model's bound on the parser's recursion, and \<open>Unmodelled\<close> marks
  an input on which the Go code computes a result that the model does not cover.
\<close>

datatype error =
    TypeError string
  | UnknownParameter string
  | Expected string
  | UnknownOperator string
  | CouldNotCall string
  | SyntaxError string
  | Errorf string
  | Cancelled
  | Panic string
  | OutOfFuel
  | Unmodelled string

type_synonym result = "error + val"

section \<open>The filter operators \<open>cfa\<close> and \<open>cfm\<close> (gval.go)\<close>

text \<open>\<open>strings.HasPrefix\<close>, \<open>strings.HasSuffix\<close> and \<open>strings.Contains\<close> on byte strings.\<close>

definition HasPrefix :: "string \<Rightarrow> string \<Rightarrow> bool" where
  "HasPrefix s pre = prefix pre s"

definition HasSuffix :: "string \<Rightarrow> string \<Rightarrow> bool" where
  "HasSuffix s suf = suffix suf s"

definition Contains :: "string \<Rightarrow> string \<Rightarrow> bool" where
  "Contains s sub = sublist sub s"

definition matchesCondition :: "string \<Rightarrow> string \<Rightarrow> string \<Rightarrow> bool" where
  "matchesCondition value target operator =
     (if operator = ''equal'' \<or> operator = ''eq'' \<or> operator = ''=='' then value = target
      else if operator = ''notequal'' \<or> operator = ''ne'' \<or> operator = ''!='' then value \<noteq> target
      else if operator = ''startswith'' \<or> operator = ''sw'' then HasPrefix value target
      else if operator = ''endswith'' \<or> operator = ''ew'' then HasSuffix value target
      else if operator = ''contains'' \<or> operator = ''co'' then Contains value target
      else value = target)"

text \<open>
  A \<open>for i, x := range xs\<close> loop that returns at the first \<open>x\<close> satisfying a test:
  the index of that element, counted from \<open>i\<close>, if there is one.
\<close>

fun firstMatch :: "('a \<Rightarrow> bool) \<Rightarrow> 'a list \<Rightarrow> nat \<Rightarrow> nat option" where
  "firstMatch P [] i = None"
| "firstMatch P (x # xs) i = (if P x then Some i else firstMatch P xs (Suc i))"

text \<open>The parallel assignment \<open>s[0], s[i] = s[i], s[0]\<close>, for \<open>i\<close> in range.\<close>

definition swapFirst :: "'a list \<Rightarrow> nat \<Rightarrow> 'a list" where
  "swapFirst s i = (s[0 := s ! i])[i := s ! 0]"

text \<open>The test \<open>strVal, ok := val.(string); ok && matchesCondition(strVal, target, operator)\<close>.\<close>

definition stringMatches :: "string \<Rightarrow> string \<Rightarrow> val \<Rightarrow> bool" where
  "stringMatches target operator v =
     (case v of VStr strVal \<Rightarrow> matchesCondition strVal target operator | _ \<Rightarrow> False)"

text \<open>The test on a map: the field exists, is a string, and matches.\<close>

definition fieldMatches :: "string \<Rightarrow> string \<Rightarrow> string \<Rightarrow> (string \<times> val) list \<Rightarrow> bool" where
  "fieldMatches fieldName target operator m =
     (case map_of m fieldName of
        Some v \<Rightarrow> stringMatches target operator v
      | None \<Rightarrow> False)"

definition itemMatches :: "string \<Rightarrow> string \<Rightarrow> string \<Rightarrow> val \<Rightarrow> bool" where
  "itemMatches fieldName target operator item =
     (case item of VMap m \<Rightarrow> fieldMatches fieldName target operator m | _ \<Rightarrow> False)"

text \<open>
  \<open>cfaOperator\<close> and \<open>cfmOperator\<close> write to the backing array of their left operand.
  The model passes that state explicitly: the functions return the pair of the Go result
  \<open>(interface{}, error)\<close> and the left operand as it is after the call.
\<close>

definition cfaOperator :: "val \<Rightarrow> val \<Rightarrow> result \<times> val" where
  "cfaOperator a b =
     (case b of
        VList bSlice \<Rightarrow>
          if length bSlice < 2 then (Inr (VBool False), a)
          else (case bSlice ! 0 of
            VStr targetValue \<Rightarrow>
              (case bSlice ! 1 of
                 VStr operator \<Rightarrow>
                   (case a of
                      VSlices sliceOfSlices \<Rightarrow>
                        if length sliceOfSlices = 0 then (Inr (VBool False), a)
                        else (case firstMatch (list_ex (stringMatches targetValue operator))
                                     sliceOfSlices 0 of
                                Some i \<Rightarrow> (Inr (VBool True), VSlices (swapFirst sliceOfSlices i))
                              | None \<Rightarrow> (Inr (VBool False), a))
                    | VList slice \<Rightarrow>
                        if length slice = 0 then (Inr (VBool False), a)
                        else (case firstMatch (stringMatches targetValue operator) slice 0 of
                                Some i \<Rightarrow> (Inr (VBool True), VList (swapFirst slice i))
                              | None \<Rightarrow> (Inr (VBool False), a))
                    | _ \<Rightarrow> (Inr (VBool False), a))
               | _ \<Rightarrow> (Inr (VBool False), a))
          | _ \<Rightarrow> (Inr (VBool False), a))
      | _ \<Rightarrow> (Inr (VBool False), a))"

definition cfmOperator :: "val \<Rightarrow> val \<Rightarrow> result \<times> val" where
  "cfmOperator a b =
     (case b of
        VList bSlice \<Rightarrow>
          if length bSlice < 3 then (Inr (VBool False), a)
          else (case bSlice ! 0 of
            VStr fieldName \<Rightarrow>
              (case bSlice ! 1 of
                 VStr operator \<Rightarrow>
                   (case bSlice ! 2 of
                      VStr targetValue \<Rightarrow>
                        (case a of
                           VMaps sliceOfMaps \<Rightarrow>
                             if length sliceOfMaps = 0 then (Inr (VBool False), a)
                             else (case firstMatch (fieldMatches fieldName targetValue operator)
                                          sliceOfMaps 0 of
                                     Some i \<Rightarrow> (Inr (VBool True), VMaps (swapFirst sliceOfMaps i))
                                   | None \<Rightarrow> (Inr (VBool False), a))
                         | VList slice \<Rightarrow>
                             if length slice = 0 then (Inr (VBool False), a)
                             else (case firstMatch (itemMatches fieldName targetValue operator)
                                          slice 0 of
                                     Some i \<Rightarrow> (Inr (VBool True), VList (swapFirst slice i))
                                   | None \<Rightarrow> (Inr (VBool False), a))
                         | _ \<Rightarrow> (Inr (VBool False), a))
                    | _ \<Rightarrow> (Inr (VBool False), a))
               | _ \<Rightarrow> (Inr (VBool False), a))
          | _ \<Rightarrow> (Inr (VBool False), a))
      | _ \<Rightarrow> (Inr (VBool False), a))"

section \<open>Go primitives used by the operators\<close>

subsection \<open>\<open>float64\<close> arithmetic and order\<close>

definition fsign :: "float64 \<Rightarrow> int" where
  "fsign x = (case x of Fin a \<Rightarrow> (if a < 0 then - 1 else if a = 0 then 0 else 1)
              | PInf \<Rightarrow> 1 | NInf \<Rightarrow> - 1 | NaN \<Rightarrow> 0)"

definition fneg :: "float64 \<Rightarrow> float64" where
  "fneg x = (case x of Fin a \<Rightarrow> Fin (- a) | PInf \<Rightarrow> NInf | NInf \<Rightarrow> PInf | NaN \<Rightarrow> NaN)"

definition fadd :: "float64 \<Rightarrow> float64 \<Rightarrow> float64" where
  "fadd x y =
     (case (x, y) of
        (NaN, _) \<Rightarrow> NaN
      | (_, NaN) \<Rightarrow> NaN
      | (Fin a, Fin b) \<Rightarrow> Fin (a + b)
      | (Fin a, i) \<Rightarrow> i
      | (i, Fin b) \<Rightarrow> i
      | (PInf, PInf) \<Rightarrow> PInf
      | (NInf, NInf) \<Rightarrow> NInf
      | (PInf, NInf) \<Rightarrow> NaN
      | (NInf, PInf) \<Rightarrow> NaN)"

definition fsub :: "float64 \<Rightarrow> float64 \<Rightarrow> float64" where
  "fsub x y = fadd x (fneg y)"

definition fmul :: "float64 \<Rightarrow> float64 \<Rightarrow> float64" where
  "fmul x y =
     (case (x, y) of
        (NaN, _) \<Rightarrow> NaN
      | (_, NaN) \<Rightarrow> NaN
      | (Fin a, Fin b) \<Rightarrow> Fin (a * b)
      | _ \<Rightarrow> (if fsign x * fsign y = 0 then NaN
              else if 0 < fsign x * fsign y then PInf else NInf))"

text \<open>Division never fails: a zero divisor yields an infinity, or NaN for \<open>0 / 0\<close>.\<close>

definition fdiv :: "float64 \<Rightarrow> float64 \<Rightarrow> float64" where
  "fdiv x y =
     (case (x, y) of
        (NaN, _) \<Rightarrow> NaN
      | (_, NaN) \<Rightarrow> NaN
      | (Fin a, Fin b) \<Rightarrow>
          (if b = 0 then (if a = 0 then NaN else if 0 < a then PInf else NInf)
           else Fin (a / b))
      | (Fin a, _) \<Rightarrow> Fin 0
      | (_, Fin b) \<Rightarrow> (if (b < 0) = (x = PInf) then NInf else PInf)
      | _ \<Rightarrow> NaN)"

definition fless :: "float64 \<Rightarrow> float64 \<Rightarrow> bool" where
  "fless x y =
     (case (x, y) of
        (NaN, _) \<Rightarrow> False
      | (_, NaN) \<Rightarrow> False
      | (Fin a, Fin b) \<Rightarrow> a < b
      | (_, NInf) \<Rightarrow> False
      | (PInf, _) \<Rightarrow> False
      | _ \<Rightarrow> True)"

definition feq :: "float64 \<Rightarrow> float64 \<Rightarrow> bool" where
  "feq x y = (x \<noteq> NaN \<and> x = y)"

definition fleq :: "float64 \<Rightarrow> float64 \<Rightarrow> bool" where
  "fleq x y = (fless x y \<or> feq x y)"

text \<open>\<open>math.Mod\<close>: the remainder has the sign of the dividend.\<close>

definition math_Mod :: "float64 \<Rightarrow> float64 \<Rightarrow> float64" where
  "math_Mod x y =
     (case (x, y) of
        (Fin a, Fin b) \<Rightarrow>
          (if b = 0 then NaN
           else Fin (a - b * of_int (if 0 \<le> a / b then \<lfloor>a / b\<rfloor> else \<lceil>a / b\<rceil>)))
      | (Fin a, PInf) \<Rightarrow> Fin a
      | (Fin a, NInf) \<Rightarrow> Fin a
      | _ \<Rightarrow> NaN)"

text \<open>\<open>math.Pow\<close>, with the special cases of its documentation in their order.\<close>

definition oddInteger :: "real \<Rightarrow> bool" where
  "oddInteger b = (b \<in> \<int> \<and> odd \<lfloor>b\<rfloor>)"

definition math_Pow :: "float64 \<Rightarrow> float64 \<Rightarrow> float64" where
  "math_Pow x y =
     (if y = Fin 0 then Fin 1
      else if x = Fin 1 then Fin 1
      else (case (x, y) of
        (NaN, _) \<Rightarrow> NaN
      | (_, NaN) \<Rightarrow> NaN
      | (Fin a, Fin b) \<Rightarrow>
          (if a = 0 then (if b < 0 then PInf else Fin 0)
           else if b \<in> \<int> then (if 0 \<le> b then Fin (a ^ nat \<lfloor>b\<rfloor>) else Fin (1 / a ^ nat \<lfloor>- b\<rfloor>))
           else if a < 0 then NaN
           else Fin (a powr b))
      | (Fin a, PInf) \<Rightarrow> (if a = - 1 then Fin 1 else if 1 < \<bar>a\<bar> then PInf else Fin 0)
      | (Fin a, NInf) \<Rightarrow> (if a = - 1 then Fin 1 else if 1 < \<bar>a\<bar> then Fin 0 else PInf)
      | (PInf, Fin b) \<Rightarrow> (if 0 < b then PInf else Fin 0)
      | (PInf, PInf) \<Rightarrow> PInf
      | (PInf, NInf) \<Rightarrow> Fin 0
      | (NInf, Fin b) \<Rightarrow>
          (if 0 < b then (if oddInteger b then NInf else PInf) else Fin 0)
      | (NInf, PInf) \<Rightarrow> PInf
      | (NInf, NInf) \<Rightarrow> Fin 0))"

subsection \<open>Reflection: \<open>%T\<close>, \<open>reflect.Value.IsZero\<close>, \<open>reflect.DeepEqual\<close>\<close>

definition typeName :: "val \<Rightarrow> string" where
  "typeName v =
     (case v of
        VNil \<Rightarrow> ''<nil>''
      | VBool _ \<Rightarrow> ''bool''
      | VNum _ \<Rightarrow> ''float64''
      | VStr _ \<Rightarrow> ''string''
      | VList _ \<Rightarrow> ''[]interface {}''
      | VMap _ \<Rightarrow> ''map[string]interface {}''
      | VSlices _ \<Rightarrow> ''[][]interface {}''
      | VMaps _ \<Rightarrow> ''[]map[string]interface {}'')"

text \<open>
  \<open>reflect.ValueOf(x).IsZero()\<close> for a non-nil \<open>x\<close>: the zero value of the dynamic type.
  The slices and maps of the model are non-nil, hence not zero.
\<close>

definition IsZero :: "val \<Rightarrow> bool" where
  "IsZero v =
     (case v of
        VBool b \<Rightarrow> \<not> b
      | VNum x \<Rightarrow> x = Fin 0
      | VStr s \<Rightarrow> s = []
      | _ \<Rightarrow> False)"

text \<open>The condition \<open>x == nil || reflect.ValueOf(x).IsZero()\<close> of \<open>??\<close> and of the ternary.\<close>

definition nilOrZero :: "val \<Rightarrow> bool" where
  "nilOrZero x = (x = VNil \<or> IsZero x)"

text \<open>
  \<open>reflect.DeepEqual\<close> on the values of the model: equal dynamic types, numbers equal as
  \<open>float64\<close> (NaN differs from itself), slices of equal length with deeply equal elements,
  maps with the same keys and deeply equal values. A map is an association list with
  distinct keys. (Go also reports two slices or maps as deeply equal when they are the
  same object; values carry no identity here.)
\<close>

fun DeepEqual :: "val \<Rightarrow> val \<Rightarrow> bool" where
  "DeepEqual VNil VNil = True"
| "DeepEqual (VBool a) (VBool b) = (a = b)"
| "DeepEqual (VNum a) (VNum b) = feq a b"
| "DeepEqual (VStr a) (VStr b) = (a = b)"
| "DeepEqual (VList xs) (VList ys) = list_all2 DeepEqual xs ys"
| "DeepEqual (VMap m) (VMap m') =
     (length m = length m' \<and>
      list_all (\<lambda>(k, v). case map_of m' k of Some w \<Rightarrow> DeepEqual v w | None \<Rightarrow> False) m)"
| "DeepEqual (VSlices xss) (VSlices yss) = list_all2 (list_all2 DeepEqual) xss yss"
| "DeepEqual (VMaps ms) (VMaps ms') =
     list_all2 (\<lambda>m m'. length m = length m' \<and>
        list_all (\<lambda>(k, v). case map_of m' k of Some w \<Rightarrow> DeepEqual v w | None \<Rightarrow> False) m) ms ms'"
| "DeepEqual _ _ = False"


section \<open>Evaluables and operator bodies\<close>

text \<open>
  A compiled evaluator is a Go closure \<open>func(c context.Context, v interface{}) (interface{}, error)\<close>.
  Of the context only its cancellation state matters here.
\<close>

datatype Context = Context (cancelled: bool)

type_synonym Evaluable = "Context \<Rightarrow> val \<Rightarrow> result"

type_synonym infixBuilder = "Evaluable \<Rightarrow> Evaluable \<Rightarrow> error + Evaluable"

text \<open>
  Modelled from the spec: \<open>p.Const\<close> (its source file is not under src/). A constant is a
  fixed value, resolved at parse time and not re-evaluated; its evaluator returns that
  value. The spec also asks every compiled evaluator to check the cancellation handle.
  The evaluators under src/ do not check it (C5), the evaluator of a constant is taken
  to be like them, and no property of cancellation below is stated of a constant.
\<close>

definition Const :: "val \<Rightarrow> Evaluable" where
  "Const x = (\<lambda>c v. Inr x)"

subsection \<open>Coercion of operands\<close>

definition isDigit :: "char \<Rightarrow> bool" where
  "isDigit ch = (ch \<in> set ''0123456789'')"

definition isLetter :: "char \<Rightarrow> bool" where
  "isLetter ch = (ch \<in> set ''abcdefghijklmnopqrstuvwxyzABCDEFGHIJKLMNOPQRSTUVWXYZ'')"

definition digitValue :: "char \<Rightarrow> nat" where
  "digitValue ch =
     (case map_of [(CHR ''0'', 0), (CHR ''1'', 1), (CHR ''2'', 2), (CHR ''3'', 3), (CHR ''4'', 4),
                   (CHR ''5'', 5), (CHR ''6'', 6), (CHR ''7'', 7), (CHR ''8'', 8), (CHR ''9'', 9)] ch of
        Some d \<Rightarrow> d
      | None \<Rightarrow> 0)"

text \<open>The value of a string of decimal digits, most significant first.\<close>

definition digitsValue :: "string \<Rightarrow> nat" where
  "digitsValue ds = foldl (\<lambda>n ch. 10 * n + digitValue ch) 0 ds"

text \<open>
  \<open>strconv.ParseFloat(s, 64)\<close> on decimal literals \<open>digits\<close>, \<open>digits.digits\<close>,
  \<open>digits.\<close> and \<open>.digits\<close> with an optional sign; every other string is a syntax
  error here (Go also accepts exponents, hexadecimal literals, underscores and the words for
  infinity and NaN).
\<close>

definition ParseFloatUnsigned :: "string \<Rightarrow> float64 option" where
  "ParseFloatUnsigned s =
     (let ip = takeWhile isDigit s; rest = dropWhile isDigit s in
      if rest = [] then (if ip = [] then None else Some (Fin (of_nat (digitsValue ip))))
      else if hd rest = CHR ''.'' \<and> list_all isDigit (tl rest) \<and> (ip \<noteq> [] \<or> tl rest \<noteq> [])
        then Some (Fin (of_nat (digitsValue ip) + of_nat (digitsValue (tl rest)) / 10 ^ length (tl rest)))
      else None)"

definition ParseFloat :: "string \<Rightarrow> float64 option" where
  "ParseFloat s =
     (case s of
        [] \<Rightarrow> None
      | ch # cs \<Rightarrow>
          if ch = CHR ''-'' then map_option fneg (ParseFloatUnsigned cs)
          else if ch = CHR ''+'' then ParseFloatUnsigned cs
          else ParseFloatUnsigned s)"

text \<open>
  Modelled from the spec: \<open>convertToFloat\<close> and \<open>convertToBool\<close> (used by gval.go and
  tolerant.go, defined in a file that is not under src/). A number converts directly, a
  string is parsed as a float; a boolean converts directly, the words \<open>true\<close> and
  \<open>false\<close> in either case and any nonzero or zero number convert to a boolean.
\<close>

definition convertToFloat :: "val \<Rightarrow> float64 option" where
  "convertToFloat v = (case v of VNum x \<Rightarrow> Some x | VStr s \<Rightarrow> ParseFloat s | _ \<Rightarrow> None)"

definition convertToBool :: "val \<Rightarrow> bool option" where
  "convertToBool v =
     (case v of
        VBool b \<Rightarrow> Some b
      | VNum x \<Rightarrow> Some (x \<noteq> Fin 0)
      | VStr s \<Rightarrow> (if s = ''true'' \<or> s = ''TRUE'' then Some True
                   else if s = ''false'' \<or> s = ''FALSE'' then Some False else None)
      | _ \<Rightarrow> None)"

text \<open>
  Modelled from the spec: the typed operator forms \<open>InfixNumberOperator\<close> and
  \<open>InfixBoolOperator\<close> coerce each operand to the operator's type first; a failed
  coercion is a type error naming the type of the offending value.
\<close>

definition numberOperator :: "(float64 \<Rightarrow> float64 \<Rightarrow> result) \<Rightarrow> val \<Rightarrow> val \<Rightarrow> result" where
  "numberOperator f a b =
     (case convertToFloat a of
        None \<Rightarrow> Inl (TypeError (typeName a))
      | Some x \<Rightarrow>
          (case convertToFloat b of
             None \<Rightarrow> Inl (TypeError (typeName b))
           | Some y \<Rightarrow> f x y))"

definition boolOperator :: "(bool \<Rightarrow> bool \<Rightarrow> result) \<Rightarrow> val \<Rightarrow> val \<Rightarrow> result" where
  "boolOperator f a b =
     (case convertToBool a of
        None \<Rightarrow> Inl (TypeError (typeName a))
      | Some x \<Rightarrow>
          (case convertToBool b of
             None \<Rightarrow> Inl (TypeError (typeName b))
           | Some y \<Rightarrow> f x y))"

text \<open>Modelled from the spec: a prefix operator is evaluated as \<open>op(operand)\<close>.\<close>

definition prefixEvaluable :: "(Context \<Rightarrow> val \<Rightarrow> result) \<Rightarrow> Evaluable \<Rightarrow> Evaluable" where
  "prefixEvaluable f eval = (\<lambda>c v. case eval c v of Inl err \<Rightarrow> Inl err | Inr a \<Rightarrow> f c a)"

subsection \<open>Infix builders\<close>

text \<open>
  Modelled from the spec: the evaluator of an infix operator (its builder is not under
  src/). The eager form evaluates the left operand, then the right operand, then applies
  the operator. With a short-circuit predicate the left operand is evaluated first and
  the predicate inspects it: either it decides the result and the right operand is not
  evaluated, or the eager form runs, evaluating both sides afresh.
\<close>

definition eagerInfix :: "(val \<Rightarrow> val \<Rightarrow> result) \<Rightarrow> Evaluable \<Rightarrow> Evaluable \<Rightarrow> Evaluable" where
  "eagerInfix f a b =
     (\<lambda>c v. case a c v of
        Inl err \<Rightarrow> Inl err
      | Inr x \<Rightarrow> (case b c v of Inl err \<Rightarrow> Inl err | Inr y \<Rightarrow> f x y))"

definition shortCircuitInfix ::
  "(val \<Rightarrow> val \<times> bool) \<Rightarrow> (val \<Rightarrow> val \<Rightarrow> result) \<Rightarrow> Evaluable \<Rightarrow> Evaluable \<Rightarrow> Evaluable" where
  "shortCircuitInfix shortF f a b =
     (\<lambda>c v. case a c v of
        Inl err \<Rightarrow> Inl err
      | Inr x \<Rightarrow> (case shortF x of (r, ok) \<Rightarrow> if ok then Inr r else eagerInfix f a b c v))"

subsection \<open>Operator bodies of gval.go and parse.go\<close>

text \<open>\<open>inArray\<close> (parse.go): the loop over the collection, then the function.\<close>

fun inArray_loop :: "val \<Rightarrow> val list \<Rightarrow> result" where
  "inArray_loop a [] = Inr (VBool False)"
| "inArray_loop a (value # col) =
     (if DeepEqual a value then Inr (VBool True) else inArray_loop a col)"

definition inArray :: "val \<Rightarrow> val \<Rightarrow> result" where
  "inArray a b = (case b of VList col \<Rightarrow> inArray_loop a col | _ \<Rightarrow> Inl (TypeError (typeName b)))"

text \<open>The bodies of \<open>==\<close> and \<open>!=\<close> registered by \<open>base\<close>.\<close>

definition baseEqual :: "val \<Rightarrow> val \<Rightarrow> result" where
  "baseEqual a b =
     (if a = VNil \<and> b = VNil then Inr (VBool True)
      else if a = VNil \<or> b = VNil then Inr (VBool False)
      else Inr (VBool (DeepEqual a b)))"

definition baseNotEqual :: "val \<Rightarrow> val \<Rightarrow> result" where
  "baseNotEqual a b =
     (if a = VNil \<and> b = VNil then Inr (VBool False)
      else if a = VNil \<or> b = VNil then Inr (VBool True)
      else Inr (VBool (\<not> DeepEqual a b)))"

text \<open>The short-circuit predicate and the body of \<open>??\<close> registered by \<open>full\<close>.\<close>

definition coalesceShortCircuit :: "val \<Rightarrow> val \<times> bool" where
  "coalesceShortCircuit a = (a, a \<noteq> VNil \<and> \<not> IsZero a)"

definition coalesce :: "val \<Rightarrow> val \<Rightarrow> result" where
  "coalesce a b = (if a = VNil \<or> IsZero a then Inr b else Inr a)"

text \<open>The short-circuit predicates of \<open>&&\<close> and \<open>||\<close> registered by \<open>propositionalLogic\<close>.\<close>

definition andShortCircuit :: "val \<Rightarrow> val \<times> bool" where
  "andShortCircuit a = (VBool False, a = VBool False)"

definition orShortCircuit :: "val \<Rightarrow> val \<times> bool" where
  "orShortCircuit a = (VBool True, a = VBool True)"

text \<open>The bodies of the prefix operators \<open>-\<close> (\<open>base\<close>) and \<open>!\<close> (\<open>propositionalLogic\<close>).\<close>

definition negative :: "Context \<Rightarrow> val \<Rightarrow> result" where
  "negative c v = (case convertToFloat v of None \<Rightarrow> Inl (TypeError (typeName v))
                   | Some i \<Rightarrow> Inr (VNum (fneg i)))"

definition logicalNot :: "Context \<Rightarrow> val \<Rightarrow> result" where
  "logicalNot c v = (case convertToBool v of None \<Rightarrow> Inl (TypeError (typeName v))
                     | Some b \<Rightarrow> Inr (VBool (\<not> b)))"

subsection \<open>The evaluators built by \<open>parseIf\<close> and \<open>parseJSONArray\<close> (parse.go)\<close>

text \<open>
  The closure that \<open>parseIf\<close> returns for the condition \<open>e\<close>, the then-branch \<open>a\<close>
  and the else-branch \<open>b\<close>.
\<close>

definition ifEvaluable :: "Evaluable \<Rightarrow> Evaluable \<Rightarrow> Evaluable \<Rightarrow> Evaluable" where
  "ifEvaluable e a b =
     (\<lambda>c v. case e c v of
        Inl err \<Rightarrow> Inl err
      | Inr x \<Rightarrow> if x = VNil \<or> IsZero x then b c v else a c v)"

text \<open>
  The closure that \<open>parseJSONArray\<close> returns: the elements are evaluated in order, the
  first error ends the loop.
\<close>

fun evalElements :: "Evaluable list \<Rightarrow> Context \<Rightarrow> val \<Rightarrow> error + val list" where
  "evalElements [] c v = Inr []"
| "evalElements (e # evals) c v =
     (case e c v of
        Inl err \<Rightarrow> Inl err
      | Inr x \<Rightarrow> (case evalElements evals c v of Inl err \<Rightarrow> Inl err | Inr vs \<Rightarrow> Inr (x # vs)))"

definition arrayEvaluable :: "Evaluable list \<Rightarrow> Evaluable" where
  "arrayEvaluable evals =
     (\<lambda>c v. case evalElements evals c v of Inl err \<Rightarrow> Inl err | Inr vs \<Rightarrow> Inr (VList vs))"

subsection \<open>The equality operators of \<open>enhancedComparisons\<close> (tolerant.go)\<close>

definition enhancedEqual :: "Evaluable \<Rightarrow> Evaluable \<Rightarrow> Evaluable" where
  "enhancedEqual a b =
     (\<lambda>c v. case a c v of
        Inl err \<Rightarrow> Inl err
      | Inr aVal \<Rightarrow>
          (case b c v of
             Inl err \<Rightarrow> Inl err
           | Inr bVal \<Rightarrow>
               if (aVal = VNil \<and> bVal = VBool False) \<or> (aVal = VBool False \<and> bVal = VNil)
                 then Inr (VBool True)
               else if aVal = VNil \<and> bVal = VNil then Inr (VBool True)
               else if aVal = VBool False \<and> bVal = VBool False then Inr (VBool True)
               else if aVal = VNil \<or> bVal = VNil \<or> aVal = VBool False \<or> bVal = VBool False
                 then Inr (VBool False)
               else (case (convertToFloat aVal, convertToFloat bVal) of
                  (Some aFloat, Some bFloat) \<Rightarrow> Inr (VBool (feq aFloat bFloat))
                | _ \<Rightarrow>
                  (case (aVal, bVal) of
                     (VStr aStr, VStr bStr) \<Rightarrow> Inr (VBool (aStr = bStr))
                   | (VBool aBool, VBool bBool) \<Rightarrow> Inr (VBool (aBool = bBool))
                   | _ \<Rightarrow> Inr (VBool (DeepEqual aVal bVal))))))"

definition enhancedNotEqual :: "Evaluable \<Rightarrow> Evaluable \<Rightarrow> Evaluable" where
  "enhancedNotEqual a b =
     (\<lambda>c v. case a c v of
        Inl err \<Rightarrow> Inl err
      | Inr aVal \<Rightarrow>
          (case b c v of
             Inl err \<Rightarrow> Inl err
           | Inr bVal \<Rightarrow>
               if (aVal = VNil \<and> bVal = VBool False) \<or> (aVal = VBool False \<and> bVal = VNil)
                 then Inr (VBool False)
               else if aVal = VNil \<and> bVal = VNil then Inr (VBool False)
               else if aVal = VBool False \<and> bVal = VBool False then Inr (VBool False)
               else if (aVal = VNil \<and> bVal \<noteq> VNil) \<or> (bVal = VNil \<and> aVal \<noteq> VNil)
                       \<or> (aVal = VBool False \<and> bVal \<noteq> VBool False)
                       \<or> (bVal = VBool False \<and> aVal \<noteq> VBool False)
                 then Inr (VBool True)
               else (case (convertToFloat aVal, convertToFloat bVal) of
                  (Some aFloat, Some bFloat) \<Rightarrow> Inr (VBool (\<not> feq aFloat bFloat))
                | _ \<Rightarrow>
                  (case (aVal, bVal) of
                     (VStr aStr, VStr bStr) \<Rightarrow> Inr (VBool (aStr \<noteq> bStr))
                   | (VBool aBool, VBool bBool) \<Rightarrow> Inr (VBool (aBool \<noteq> bBool))
                   | _ \<Rightarrow> Inr (VBool (\<not> DeepEqual aVal bVal))))))"


section \<open>Missing-field behaviour of the variable selector (tolerant.go)\<close>

text \<open>The three constants of \<open>MissingFieldBehavior\<close>.\<close>

datatype MissingFieldBehavior = ErrorOnMissingField | FalseOnMissingField | NilOnMissingField

text \<open>\<open>strings.Join\<close>.\<close>

fun Join :: "string list \<Rightarrow> string \<Rightarrow> string" where
  "Join [] sep = []"
| "Join [x] sep = x"
| "Join (x # y # xs) sep = x @ sep @ Join (y # xs) sep"

definition handleMissingField :: "MissingFieldBehavior \<Rightarrow> string list \<Rightarrow> result" where
  "handleMissingField behavior keyPath =
     (case behavior of
        FalseOnMissingField \<Rightarrow> Inr (VBool False)
      | NilOnMissingField \<Rightarrow> Inr VNil
      | ErrorOnMissingField \<Rightarrow> Inl (UnknownParameter (Join keyPath ''.'')))"

text \<open>
  \<open>strconv.Atoi\<close>: an optional sign and one or more decimal digits, within the range of
  a 64-bit \<open>int\<close>.
\<close>

definition Atoi :: "string \<Rightarrow> int option" where
  "Atoi s =
     (let neg = (s \<noteq> [] \<and> hd s = CHR ''-'');
          ds = (if s \<noteq> [] \<and> (hd s = CHR ''-'' \<or> hd s = CHR ''+'') then tl s else s);
          n = (if neg then - int (digitsValue ds) else int (digitsValue ds))
      in if ds \<noteq> [] \<and> list_all isDigit ds \<and> - (2 ^ 63) \<le> n \<and> n < 2 ^ 63 then Some n else None)"

text \<open>
  Modelled from the spec: \<open>reflectSelect\<close> (called by tolerant.go, defined in a file that
  is not under src/), the generic reflective access that is tried last. On the values of
  the model it indexes the two typed slices; no other value has a field or an index.
\<close>

definition reflectSelect :: "string \<Rightarrow> val \<Rightarrow> val option" where
  "reflectSelect k v =
     (case v of
        VSlices xss \<Rightarrow>
          (case Atoi k of
             Some idx \<Rightarrow> if 0 \<le> idx \<and> idx < int (length xss) then Some (VList (xss ! nat idx)) else None
           | None \<Rightarrow> None)
      | VMaps ms \<Rightarrow>
          (case Atoi k of
             Some idx \<Rightarrow> if 0 \<le> idx \<and> idx < int (length ms) then Some (VMap (ms ! nat idx)) else None
           | None \<Rightarrow> None)
      | _ \<Rightarrow> None)"

text \<open>
  The loop \<open>for i, k := range keys\<close> of the selector that \<open>WithMissingFieldBehavior\<close>
  installs. \<open>seen\<close> is \<open>keys[:i]\<close>, so that \<open>seen @ [k]\<close> is \<open>keys[:i+1]\<close>. No value of
  the model implements \<open>Selector\<close> or is a \<open>map[interface{}]interface{}\<close>; these two
  cases of the type switch do not occur.
\<close>

fun selectKeys :: "MissingFieldBehavior \<Rightarrow> string list \<Rightarrow> string list \<Rightarrow> val \<Rightarrow> result" where
  "selectKeys behavior seen [] v = Inr v"
| "selectKeys behavior seen (k # keys) v =
     (case v of
        VMap m \<Rightarrow>
          (case map_of m k of
             Some x \<Rightarrow> selectKeys behavior (seen @ [k]) keys x
           | None \<Rightarrow> handleMissingField behavior (seen @ [k]))
      | VList xs \<Rightarrow>
          (case Atoi k of
             Some idx \<Rightarrow>
               if 0 \<le> idx \<and> idx < int (length xs)
               then selectKeys behavior (seen @ [k]) keys (xs ! nat idx)
               else handleMissingField behavior (seen @ [k])
           | None \<Rightarrow> handleMissingField behavior (seen @ [k]))
      | _ \<Rightarrow>
          (case reflectSelect k v of
             Some x \<Rightarrow> selectKeys behavior (seen @ [k]) keys x
           | None \<Rightarrow> handleMissingField behavior (seen @ [k])))"

text \<open>
  Modelled from the spec: \<open>EvalString\<close> and \<open>EvalStrings\<close> (not under src/) evaluate and
  coerce the result to text. A string is its own text and an integral number below
  \<open>10^21\<close> in magnitude is its decimal numeral; \<open>nil\<close>, the booleans, the infinities and
  NaN print as Go's \<open>%v\<close> prints them. The text of the other numbers and of composite
  values is not modelled.
\<close>

function showNat :: "nat \<Rightarrow> string" where
  "showNat n = (if n < 10 then [''0123456789'' ! n] else showNat (n div 10) @ [''0123456789'' ! (n mod 10)])"
  by pat_completeness auto
termination
  by (relation "measure id") auto

definition toText :: "val \<Rightarrow> string option" where
  "toText v =
     (case v of
        VNil \<Rightarrow> Some ''<nil>''
      | VBool b \<Rightarrow> Some (if b then ''true'' else ''false'')
      | VStr s \<Rightarrow> Some s
      | VNum (Fin r) \<Rightarrow>
          (if r \<in> \<int> \<and> \<bar>r\<bar> < 10 ^ 21
           then Some ((if r < 0 then ''-'' else []) @ showNat (nat \<bar>\<lfloor>r\<rfloor>\<bar>))
           else None)
      | VNum PInf \<Rightarrow> Some ''+Inf''
      | VNum NInf \<Rightarrow> Some ''-Inf''
      | VNum NaN \<Rightarrow> Some ''NaN''
      | _ \<Rightarrow> None)"

definition EvalString :: "Evaluable \<Rightarrow> Context \<Rightarrow> val \<Rightarrow> error + string" where
  "EvalString e c v =
     (case e c v of
        Inl err \<Rightarrow> Inl err
      | Inr x \<Rightarrow> (case toText x of None \<Rightarrow> Inl (Unmodelled ''text of a value'') | Some s \<Rightarrow> Inr s))"

fun EvalStrings :: "Evaluable list \<Rightarrow> Context \<Rightarrow> val \<Rightarrow> error + string list" where
  "EvalStrings [] c v = Inr []"
| "EvalStrings (e # path) c v =
     (case EvalString e c v of
        Inl err \<Rightarrow> Inl err
      | Inr s \<Rightarrow> (case EvalStrings path c v of Inl err \<Rightarrow> Inl err | Inr strs \<Rightarrow> Inr (s # strs)))"

text \<open>The function that \<open>WithMissingFieldBehavior\<close> passes to \<open>VariableSelector\<close>.\<close>

definition missingFieldSelector :: "MissingFieldBehavior \<Rightarrow> Evaluable list \<Rightarrow> Evaluable" where
  "missingFieldSelector behavior path =
     (\<lambda>c v. case EvalStrings path c v of
        Inl err \<Rightarrow> Inl err
      | Inr keys \<Rightarrow> selectKeys behavior [] keys v)"


section \<open>Languages and their composition\<close>

text \<open>
  The token kinds that \<open>Scan\<close> returns (Go runes): the end of input, an identifier, an
  integer literal, a float literal, or any other character as itself.
\<close>

datatype token = EOF | Ident | IntTok | FloatTok | Sym char

text \<open>
  The prefix extensions, operators and postfix operators that the modelled languages
  register. A registered parser function is named by a constructor; the parser below runs
  the function that the constructor names.
\<close>

datatype extension =
    ExtNumber
  | ExtParentheses
  | ExtIdent
  | ExtJSONArray
  | ExtConstant val
  | ExtPrefixOperator "Context \<Rightarrow> val \<Rightarrow> result"
  | ExtFunction "val list \<Rightarrow> result"

datatype postfixExtension = PostfixIf

datatype operator =
    OpInfix "val \<Rightarrow> val \<Rightarrow> result"
  | OpDirectInfix infixBuilder
  | OpPostfix postfixExtension

datatype prefixKey = KToken token | KName string

text \<open>
  Modelled from the spec: the \<open>Language\<close> type, its registration functions and
  \<open>NewLanguage\<close> (none of them is under src/). A language maps a token kind or a name to
  a prefix extension and an operator name to its definition, its short-circuit predicate
  and its precedence; it may carry a variable selector, a default extension and an
  initial parser function. Each table is an association list that is searched from the
  front.
\<close>

record Language =
  prefixes :: "(prefixKey \<times> extension) list"
  operators :: "(string \<times> operator) list"
  shortCircuits :: "(string \<times> (val \<Rightarrow> val \<times> bool)) list"
  precedences :: "(string \<times> int) list"
  selector :: "(Evaluable list \<Rightarrow> Evaluable) option"
  defaultExtension :: "extension option"
  initExtension :: "extension option"

definition newLanguage :: Language where
  "newLanguage = \<lparr>prefixes = [], operators = [], shortCircuits = [], precedences = [],
                  selector = None, defaultExtension = None, initExtension = None\<rparr>"

text \<open>
  Composition is a right-biased merge: in every table an entry of a later language
  overrides the entry of an earlier language for the same key.
\<close>

definition merge :: "Language \<Rightarrow> Language \<Rightarrow> Language" where
  "merge l base =
     \<lparr>prefixes = prefixes base @ prefixes l,
      operators = operators base @ operators l,
      shortCircuits = shortCircuits base @ shortCircuits l,
      precedences = precedences base @ precedences l,
      selector = (case selector base of Some s \<Rightarrow> Some s | None \<Rightarrow> selector l),
      defaultExtension = (case defaultExtension base of Some d \<Rightarrow> Some d | None \<Rightarrow> defaultExtension l),
      initExtension = (case initExtension base of Some i \<Rightarrow> Some i | None \<Rightarrow> initExtension l)\<rparr>"

definition NewLanguage :: "Language list \<Rightarrow> Language" where
  "NewLanguage bases = foldl merge newLanguage bases"

definition PrefixExtension :: "token \<Rightarrow> extension \<Rightarrow> Language" where
  "PrefixExtension r ext = newLanguage\<lparr>prefixes := [(KToken r, ext)]\<rparr>"

definition PrefixMetaPrefix :: "token \<Rightarrow> extension \<Rightarrow> Language" where
  "PrefixMetaPrefix r ext = newLanguage\<lparr>prefixes := [(KToken r, ext)]\<rparr>"

text \<open>A prefix operator or a constant whose name is one character is found by that token.\<close>

definition makePrefixKey :: "string \<Rightarrow> prefixKey" where
  "makePrefixKey name = (case name of [ch] \<Rightarrow> KToken (Sym ch) | _ \<Rightarrow> KName name)"

definition PrefixOperator :: "string \<Rightarrow> (Context \<Rightarrow> val \<Rightarrow> result) \<Rightarrow> Language" where
  "PrefixOperator name e = newLanguage\<lparr>prefixes := [(makePrefixKey name, ExtPrefixOperator e)]\<rparr>"

definition Constant :: "string \<Rightarrow> val \<Rightarrow> Language" where
  "Constant name x = newLanguage\<lparr>prefixes := [(makePrefixKey name, ExtConstant x)]\<rparr>"

definition InfixOperator :: "string \<Rightarrow> (val \<Rightarrow> val \<Rightarrow> result) \<Rightarrow> Language" where
  "InfixOperator name f = newLanguage\<lparr>operators := [(name, OpInfix f)]\<rparr>"

definition InfixNumberOperator :: "string \<Rightarrow> (float64 \<Rightarrow> float64 \<Rightarrow> result) \<Rightarrow> Language" where
  "InfixNumberOperator name f = InfixOperator name (numberOperator f)"

definition InfixBoolOperator :: "string \<Rightarrow> (bool \<Rightarrow> bool \<Rightarrow> result) \<Rightarrow> Language" where
  "InfixBoolOperator name f = InfixOperator name (boolOperator f)"

text \<open>
  Modelled from the spec: \<open>InfixTextOperator\<close> (not under src/) is the typed operator form
  for text. It coerces each operand to text first, with the coercion of \<open>EvalString\<close>;
  an operand whose text is not modelled is reported as such.
\<close>

definition textOperator :: "(string \<Rightarrow> string \<Rightarrow> result) \<Rightarrow> val \<Rightarrow> val \<Rightarrow> result" where
  "textOperator f a b =
     (case toText a of
        None \<Rightarrow> Inl (Unmodelled ''text of a value'')
      | Some x \<Rightarrow>
          (case toText b of
             None \<Rightarrow> Inl (Unmodelled ''text of a value'')
           | Some y \<Rightarrow> f x y))"

definition InfixTextOperator :: "string \<Rightarrow> (string \<Rightarrow> string \<Rightarrow> result) \<Rightarrow> Language" where
  "InfixTextOperator name f = InfixOperator name (textOperator f)"

definition InfixEvalOperator :: "string \<Rightarrow> infixBuilder \<Rightarrow> Language" where
  "InfixEvalOperator name f = newLanguage\<lparr>operators := [(name, OpDirectInfix f)]\<rparr>"

definition InfixShortCircuit :: "string \<Rightarrow> (val \<Rightarrow> val \<times> bool) \<Rightarrow> Language" where
  "InfixShortCircuit name f = newLanguage\<lparr>shortCircuits := [(name, f)]\<rparr>"

definition PostfixOperator :: "string \<Rightarrow> postfixExtension \<Rightarrow> Language" where
  "PostfixOperator name ext = newLanguage\<lparr>operators := [(name, OpPostfix ext)]\<rparr>"

definition Precedence :: "string \<Rightarrow> int \<Rightarrow> Language" where
  "Precedence name operatorPrecendence = newLanguage\<lparr>precedences := [(name, operatorPrecendence)]\<rparr>"

text \<open>
  Modelled from the spec: \<open>Function\<close> (not under src/) registers, under a bare
  identifier, a variadic evaluator over already-evaluated arguments.
\<close>

definition Function :: "string \<Rightarrow> (val list \<Rightarrow> result) \<Rightarrow> Language" where
  "Function name f = newLanguage\<lparr>prefixes := [(makePrefixKey name, ExtFunction f)]\<rparr>"

definition VariableSelector :: "(Evaluable list \<Rightarrow> Evaluable) \<Rightarrow> Language" where
  "VariableSelector f = newLanguage\<lparr>selector := Some f\<rparr>"

text \<open>\<open>WithMissingFieldBehavior\<close> (tolerant.go).\<close>

definition WithMissingFieldBehavior :: "MissingFieldBehavior \<Rightarrow> Language" where
  "WithMissingFieldBehavior behavior = VariableSelector (missingFieldSelector behavior)"

subsection \<open>Lookups\<close>

text \<open>The precedence of a name is 0 unless the language sets it.\<close>

definition precedenceOf :: "Language \<Rightarrow> string \<Rightarrow> int" where
  "precedenceOf l name = (case map_of (precedences l) name of Some n \<Rightarrow> n | None \<Rightarrow> 0)"

text \<open>
  The builder of an infix operator: short-circuiting when the language has a predicate
  for the name, eager otherwise. The builder of an eval operator is the registered one.
\<close>

definition infixBuilderOf :: "Language \<Rightarrow> string \<Rightarrow> (val \<Rightarrow> val \<Rightarrow> result) \<Rightarrow> infixBuilder" where
  "infixBuilderOf l name f =
     (case map_of (shortCircuits l) name of
        Some shortF \<Rightarrow> (\<lambda>a b. Inr (shortCircuitInfix shortF f a b))
      | None \<Rightarrow> (\<lambda>a b. Inr (eagerInfix f a b)))"

text \<open>The names under which the language registers anything about an operator.\<close>

definition operatorNames :: "Language \<Rightarrow> string list" where
  "operatorNames l = map fst (operators l) @ map fst (shortCircuits l) @ map fst (precedences l)"

text \<open>
  A symbol character is a character of a registered operator name that is neither a
  letter nor a digit nor an underscore.
\<close>

definition isSymbolOperation :: "Language \<Rightarrow> token \<Rightarrow> bool" where
  "isSymbolOperation l r =
     (case r of
        Sym ch \<Rightarrow> \<not> isLetter ch \<and> \<not> isDigit ch \<and> ch \<noteq> CHR ''_'' \<and> list_ex (\<lambda>name. ch \<in> set name) (operatorNames l)
      | _ \<Rightarrow> False)"

definition isOperatorPrefix :: "Language \<Rightarrow> string \<Rightarrow> bool" where
  "isOperatorPrefix l op = list_ex (\<lambda>name. prefix op name) (operatorNames l)"

text \<open>
  Modelled from the spec: \<open>p.Var\<close> (not under src/) compiles a key path to a lookup. It
  uses the selector of the language; without one the base policy applies, which is a hard
  error that names the path.
\<close>

definition Var :: "Language \<Rightarrow> Evaluable list \<Rightarrow> Evaluable" where
  "Var l keys =
     (case selector l of
        Some f \<Rightarrow> f keys
      | None \<Rightarrow> missingFieldSelector ErrorOnMissingField keys)"

text \<open>
  Modelled from the spec: \<open>p.callEvaluable\<close> (not under src/) calls the function that a
  variable path resolves to. No value of the model is a function, so the call fails after
  the path has been resolved.
\<close>

definition callEvaluable :: "string \<Rightarrow> Evaluable \<Rightarrow> Evaluable list \<Rightarrow> Evaluable" where
  "callEvaluable fullname fEval args =
     (\<lambda>c v. case fEval c v of Inl err \<Rightarrow> Inl err | Inr f \<Rightarrow> Inl (CouldNotCall fullname))"

text \<open>
  Modelled from the spec: the evaluator of a function call (not under src/) evaluates the
  arguments in order, stops at the first error, and applies the function to the values.
\<close>

definition callFunc :: "(val list \<Rightarrow> result) \<Rightarrow> Evaluable list \<Rightarrow> Evaluable" where
  "callFunc f args =
     (\<lambda>c v. case evalElements args c v of Inl err \<Rightarrow> Inl err | Inr vs \<Rightarrow> f vs)"


section \<open>The parser\<close>

subsection \<open>The token source\<close>

text \<open>
  Modelled from the spec: the token source (the \<open>Parser\<close> type with \<open>Scan\<close>, \<open>Peek\<close>,
  \<open>Next\<close>, \<open>TokenText\<close> and \<open>Camouflage\<close> is not under src/, and the scanner behind it
  is Go's \<open>text/scanner\<close>). \<open>Scan\<close> skips white space and returns an identifier, an
  integer or float literal, the end of input, or one character as itself; \<open>Peek\<close> looks
  at the next character and \<open>Next\<close> consumes it. \<open>Camouflage\<close> returns the token that
  was scanned last to the stream, so that the next \<open>Scan\<close> yields it again. The model
  scans unsigned decimal literals without exponent; string, char and raw-string literals
  and comments are not modelled.
\<close>

record Parser =
  input :: string
  lastScan :: token
  tokenText :: string
  camouflaged :: bool

definition newParser :: "string \<Rightarrow> Parser" where
  "newParser expression = \<lparr>input = expression, lastScan = EOF, tokenText = [], camouflaged = False\<rparr>"

definition isWhitespace :: "char \<Rightarrow> bool" where
  "isWhitespace ch = (ch = CHR '' '' \<or> ch = CHR 0x09 \<or> ch = CHR 0x0A \<or> ch = CHR 0x0D)"

definition isIdentRune :: "char \<Rightarrow> bool" where
  "isIdentRune ch = (isLetter ch \<or> ch = CHR ''_'' \<or> isDigit ch)"

text \<open>The next token of a text: its kind, its text, and the text that follows it.\<close>

definition scanToken :: "string \<Rightarrow> token \<times> string \<times> string" where
  "scanToken src =
     (let s = dropWhile isWhitespace src in
      case s of
        [] \<Rightarrow> (EOF, [], [])
      | ch # rest \<Rightarrow>
          if isLetter ch \<or> ch = CHR ''_'' then (Ident, takeWhile isIdentRune s, dropWhile isIdentRune s)
          else if isDigit ch then
            (let ip = takeWhile isDigit s; s1 = dropWhile isDigit s in
             if s1 \<noteq> [] \<and> hd s1 = CHR ''.''
             then (FloatTok, ip @ ''.'' @ takeWhile isDigit (tl s1), dropWhile isDigit (tl s1))
             else (IntTok, ip, s1))
          else if ch = CHR ''.'' \<and> rest \<noteq> [] \<and> isDigit (hd rest)
            then (FloatTok, ''.'' @ takeWhile isDigit rest, dropWhile isDigit rest)
          else (Sym ch, [ch], rest))"

definition Scan :: "Parser \<Rightarrow> token \<times> Parser" where
  "Scan p =
     (if camouflaged p then (lastScan p, p\<lparr>camouflaged := False\<rparr>)
      else (case scanToken (input p) of
              (r, txt, rest) \<Rightarrow> (r, \<lparr>input = rest, lastScan = r, tokenText = txt, camouflaged = False\<rparr>)))"

definition Camouflage :: "Parser \<Rightarrow> Parser" where
  "Camouflage p = p\<lparr>camouflaged := True\<rparr>"

subsection \<open>The stage stack\<close>

text \<open>The \<open>stage\<close> struct, with the fields that parse.go reads and writes.\<close>

record stage =
  Evaluable :: Evaluable
  infixBuilder :: "infixBuilder option"
  operatorPrecedence :: int

text \<open>
  Modelled from the spec: \<open>stageStack.push\<close> (not under src/). While the precedence of
  the new stage is less than or equal to the precedence at the top of the stack, the top
  is popped and its builder combines its operand with the operand of the new stage; then
  the new stage is pushed. The top of the stack is the head of the list. Calling the
  missing builder of a stage is a nil-function panic in Go.
\<close>

fun push :: "stage list \<Rightarrow> stage \<Rightarrow> error + stage list" where
  "push [] b = Inr [b]"
| "push (a # s) b =
     (if operatorPrecedence b \<le> operatorPrecedence a
      then (case infixBuilder a of
              None \<Rightarrow> Inl (Panic ''nil infixBuilder'')
            | Some build \<Rightarrow>
                (case build (Evaluable a) (Evaluable b) of
                   Inl err \<Rightarrow> Inl err
                 | Inr eval \<Rightarrow> push s (b\<lparr>Evaluable := eval\<rparr>)))
      else Inr (b # a # s))"

subsection \<open>The functions of parse.go\<close>

type_synonym 'a parsed = "error + ('a \<times> Parser)"

definition parseNumber :: "Parser \<Rightarrow> Evaluable parsed" where
  "parseNumber p =
     (case ParseFloat (tokenText p) of
        None \<Rightarrow> Inl (SyntaxError (tokenText p))
      | Some n \<Rightarrow> Inr (Const (VNum n), p))"

text \<open>
  The inner loop of \<open>parseOperator\<close>, on the unread input: \<open>Peek\<close> is its first
  character and \<open>Next\<close> consumes it. The operator text grows by the next character as
  long as that character is a symbol and the longer text is a prefix of an operator name.
  It returns the text, \<open>mustOp\<close>, and the unread input.
\<close>

fun extendOperator :: "Language \<Rightarrow> string \<Rightarrow> bool \<Rightarrow> string \<Rightarrow> string \<times> bool \<times> string" where
  "extendOperator l op mustOp [] = (op, mustOp, [])"
| "extendOperator l op mustOp (ch # rest) =
     (if isSymbolOperation l (Sym ch) \<and> isOperatorPrefix l (op @ [ch])
      then extendOperator l (op @ [ch]) True rest
      else (op, mustOp, ch # rest))"

text \<open>
  The parser functions call each other recursively, and none of the recursions is
  structural. Each function therefore takes a record \<open>p\<close> of the parser's functions for
  its nested calls, written \<open>pParseExpression p\<close> for Go's \<open>p.ParseExpression\<close>, and
  \<open>parser l n\<close> below ties the knot: its functions make their nested calls through
  \<open>parser l (n - 1)\<close>, and the functions of \<open>parser l 0\<close> report \<open>OutOfFuel\<close>. So \<open>n\<close>
  bounds the depth of the nested calls.

  The parser state is passed explicitly: a function takes the state \<open>s\<close> and returns the
  new state with its result. \<open>parseOperator\<close> receives the stack by reference and
  returns it with the stage. \<open>parseIdentAlternative\<close> is the closure \<open>alternative\<close> that
  \<open>parseIdent\<close> returns, \<open>ParseExpressionLoop\<close> and \<open>parseArgumentsLoop\<close> are the
  \<open>for\<close> loops of \<open>ParseExpression\<close> and \<open>parseArguments\<close>. \<open>runExtension\<close> calls the
  function that an extension names; for \<open>ExtIdent\<close> it is the meta prefix, which runs the
  prefix registered under the name that \<open>parseIdent\<close> returns, if there is one, and the
  alternative otherwise. For \<open>ExtFunction\<close> it is modelled from the spec (the parser
  function that \<open>Function\<close> registers is not under src/): a parenthesis that follows
  opens the comma-separated arguments of the call, and without one the function is called
  on no arguments.
\<close>

record parserFunctions =
  pParseExpression :: "Parser \<Rightarrow> Evaluable parsed"
  pParseExpressionLoop :: "stage list \<Rightarrow> Parser \<Rightarrow> Evaluable parsed"
  pParseNextExpression :: "Parser \<Rightarrow> Evaluable parsed"
  pRunExtension :: "extension \<Rightarrow> Parser \<Rightarrow> Evaluable parsed"
  pParseParentheses :: "Parser \<Rightarrow> Evaluable parsed"
  pParseOperator :: "stage list \<Rightarrow> Evaluable \<Rightarrow> Parser \<Rightarrow> (stage \<times> stage list) parsed"
  pParseIdentAlternative :: "string \<Rightarrow> Evaluable list \<Rightarrow> Parser \<Rightarrow> Evaluable parsed"
  pParseArguments :: "Parser \<Rightarrow> (Evaluable list) parsed"
  pParseArgumentsLoop :: "Evaluable list \<Rightarrow> Parser \<Rightarrow> (Evaluable list) parsed"
  pParseIf :: "Evaluable \<Rightarrow> Parser \<Rightarrow> Evaluable parsed"
  pParseJSONArray :: "Evaluable list \<Rightarrow> Parser \<Rightarrow> Evaluable parsed"

definition ParseExpression :: "parserFunctions \<Rightarrow> Parser \<Rightarrow> Evaluable parsed" where
  "ParseExpression p s = pParseExpressionLoop p [] s"

definition ParseExpressionLoop :: "parserFunctions \<Rightarrow> stage list \<Rightarrow> Parser \<Rightarrow> Evaluable parsed" where
  "ParseExpressionLoop p stack s =
     (case pParseNextExpression p s of
        Inl err \<Rightarrow> Inl err
      | Inr (eval, s1) \<Rightarrow>
          (case pParseOperator p stack eval s1 of
             Inl err \<Rightarrow> Inl err
           | Inr ((st, stack1), s2) \<Rightarrow>
               (case push stack1 st of
                  Inl err \<Rightarrow> Inl err
                | Inr [] \<Rightarrow> Inl (Panic ''peek on empty stack'')
                | Inr (first # stack2) \<Rightarrow>
                    if infixBuilder first = None then Inr (Evaluable first, s2)
                    else pParseExpressionLoop p (first # stack2) s2)))"

definition ParseNextExpression :: "Language \<Rightarrow> parserFunctions \<Rightarrow> Parser \<Rightarrow> Evaluable parsed" where
  "ParseNextExpression l p s =
     (case Scan s of
        (scan, s1) \<Rightarrow>
          (case map_of (prefixes l) (KToken scan) of
             None \<Rightarrow>
               (case defaultExtension l of
                  Some d \<Rightarrow> if scan \<noteq> EOF then pRunExtension p d s1 else Inl (Expected ''extensions'')
                | None \<Rightarrow> Inl (Expected ''extensions''))
           | Some ex \<Rightarrow> pRunExtension p ex s1))"

definition runExtension :: "Language \<Rightarrow> parserFunctions \<Rightarrow> extension \<Rightarrow> Parser \<Rightarrow> Evaluable parsed" where
  "runExtension l p ex s =
     (case ex of
        ExtNumber \<Rightarrow> parseNumber s
      | ExtParentheses \<Rightarrow> pParseParentheses p s
      | ExtJSONArray \<Rightarrow> pParseJSONArray p [] s
      | ExtConstant x \<Rightarrow> Inr (Const x, s)
      | ExtPrefixOperator e \<Rightarrow>
          (case pParseNextExpression p s of
             Inl err \<Rightarrow> Inl err
           | Inr (eval, s1) \<Rightarrow> Inr (prefixEvaluable e eval, s1))
      | ExtFunction f \<Rightarrow>
          (case Scan s of
             (scan, s1) \<Rightarrow>
               if scan = Sym CHR ''('' then
                 (case pParseArguments p s1 of
                    Inl err \<Rightarrow> Inl err
                  | Inr (args, s2) \<Rightarrow> Inr (callFunc f args, s2))
               else Inr (callFunc f [], Camouflage s1))
      | ExtIdent \<Rightarrow>
          (case map_of (prefixes l) (KName (tokenText s)) of
             Some named \<Rightarrow> pRunExtension p named s
           | None \<Rightarrow> pParseIdentAlternative p (tokenText s) [Const (VStr (tokenText s))] s))"

definition parseParentheses :: "parserFunctions \<Rightarrow> Parser \<Rightarrow> Evaluable parsed" where
  "parseParentheses p s =
     (case pParseExpression p s of
        Inl err \<Rightarrow> Inl err
      | Inr (eval, s1) \<Rightarrow>
          (case Scan s1 of
             (scan, s2) \<Rightarrow> if scan = Sym CHR '')'' then Inr (eval, s2) else Inl (Expected ''parentheses'')))"

definition parseOperator ::
  "Language \<Rightarrow> parserFunctions \<Rightarrow> stage list \<Rightarrow> Evaluable \<Rightarrow> Parser \<Rightarrow> (stage \<times> stage list) parsed" where
  "parseOperator l p stack eval s =
     (case Scan s of
        (scan, s1) \<Rightarrow>
          if \<not> isSymbolOperation l scan \<and> scan \<noteq> Ident
          then Inr ((\<lparr>Evaluable = eval, infixBuilder = None, operatorPrecedence = 0\<rparr>, stack), Camouflage s1)
          else
            (case (if isSymbolOperation l scan then extendOperator l (tokenText s1) False (input s1)
                   else (tokenText s1, False, input s1)) of
               (op, mustOp, rest) \<Rightarrow>
                 (case map_of (operators l) op of
                    Some (OpInfix f) \<Rightarrow>
                      Inr ((\<lparr>Evaluable = eval, infixBuilder = Some (infixBuilderOf l op f),
                             operatorPrecedence = precedenceOf l op\<rparr>, stack), s1\<lparr>input := rest\<rparr>)
                  | Some (OpDirectInfix build) \<Rightarrow>
                      Inr ((\<lparr>Evaluable = eval, infixBuilder = Some build,
                             operatorPrecedence = precedenceOf l op\<rparr>, stack), s1\<lparr>input := rest\<rparr>)
                  | Some (OpPostfix PostfixIf) \<Rightarrow>
                      (case push stack \<lparr>Evaluable = eval, infixBuilder = None,
                                        operatorPrecedence = precedenceOf l op\<rparr> of
                         Inl err \<Rightarrow> Inl err
                       | Inr [] \<Rightarrow> Inl (Panic ''pop on empty stack'')
                       | Inr (first # stack1) \<Rightarrow>
                           (case pParseIf p (Evaluable first) (s1\<lparr>input := rest\<rparr>) of
                              Inl err \<Rightarrow> Inl err
                            | Inr (eval1, s2) \<Rightarrow> pParseOperator p stack1 eval1 s2))
                  | None \<Rightarrow>
                      if \<not> mustOp
                      then Inr ((\<lparr>Evaluable = eval, infixBuilder = None, operatorPrecedence = 0\<rparr>, stack),
                                Camouflage (s1\<lparr>input := rest\<rparr>))
                      else Inl (UnknownOperator op))))"

definition parseIdentAlternative ::
  "Language \<Rightarrow> parserFunctions \<Rightarrow> string \<Rightarrow> Evaluable list \<Rightarrow> Parser \<Rightarrow> Evaluable parsed" where
  "parseIdentAlternative l p fullname keys s =
     (case Scan s of
        (scan, s1) \<Rightarrow>
          if scan = Sym CHR ''.'' then
            (case Scan s1 of
               (scan1, s2) \<Rightarrow>
                 if scan1 = Ident
                 then pParseIdentAlternative p fullname (keys @ [Const (VStr (tokenText s2))]) s2
                 else Inl (Expected ''field''))
          else if scan = Sym CHR ''('' then
            (case pParseArguments p s1 of
               Inl err \<Rightarrow> Inl err
             | Inr (args, s2) \<Rightarrow> Inr (callEvaluable fullname (Var l keys) args, s2))
          else if scan = Sym CHR ''['' then
            (case pParseExpression p s1 of
               Inl err \<Rightarrow> Inl err
             | Inr (key, s2) \<Rightarrow>
                 (case Scan s2 of
                    (scan1, s3) \<Rightarrow>
                      if scan1 = Sym CHR '']''
                      then pParseIdentAlternative p fullname (keys @ [key]) s3
                      else Inl (Expected ''array key'')))
          else Inr (Var l keys, Camouflage s1))"

definition parseArguments :: "parserFunctions \<Rightarrow> Parser \<Rightarrow> (Evaluable list) parsed" where
  "parseArguments p s =
     (case Scan s of
        (scan, s1) \<Rightarrow>
          if scan = Sym CHR '')'' then Inr ([], s1)
          else pParseArgumentsLoop p [] (Camouflage s1))"

definition parseArgumentsLoop :: "parserFunctions \<Rightarrow> Evaluable list \<Rightarrow> Parser \<Rightarrow> (Evaluable list) parsed" where
  "parseArgumentsLoop p args s =
     (case pParseExpression p s of
        Inl err \<Rightarrow> Inl err
      | Inr (arg, s1) \<Rightarrow>
          (case Scan s1 of
             (scan, s2) \<Rightarrow>
               if scan = Sym CHR '')'' then Inr (args @ [arg], s2)
               else if scan = Sym CHR '','' then pParseArgumentsLoop p (args @ [arg]) s2
               else Inl (Expected ''arguments'')))"

definition parseIf :: "parserFunctions \<Rightarrow> Evaluable \<Rightarrow> Parser \<Rightarrow> Evaluable parsed" where
  "parseIf p e s =
     (case pParseExpression p s of
        Inl err \<Rightarrow> Inl err
      | Inr (a, s1) \<Rightarrow>
          (case Scan s1 of
             (scan, s2) \<Rightarrow>
               if scan = Sym CHR '':'' then
                 (case pParseExpression p s2 of
                    Inl err \<Rightarrow> Inl err
                  | Inr (b, s3) \<Rightarrow> Inr (ifEvaluable e a b, s3))
               else if scan = EOF then Inr (ifEvaluable e a (Const VNil), s2)
               else Inl (Expected ''<> ? <> : <>'')))"

definition parseJSONArray :: "parserFunctions \<Rightarrow> Evaluable list \<Rightarrow> Parser \<Rightarrow> Evaluable parsed" where
  "parseJSONArray p evals s =
     (case Scan s of
        (scan, s1) \<Rightarrow>
          if scan = Sym CHR '','' then pParseJSONArray p evals s1
          else if scan = Sym CHR '']'' then Inr (arrayEvaluable evals, s1)
          else
            (case pParseExpression p (Camouflage s1) of
               Inl err \<Rightarrow> Inl err
             | Inr (eval, s2) \<Rightarrow> pParseJSONArray p (evals @ [eval]) s2))"

primrec parser :: "Language \<Rightarrow> nat \<Rightarrow> parserFunctions" where
  "parser l 0 =
     \<lparr>pParseExpression = (\<lambda>s. Inl OutOfFuel),
      pParseExpressionLoop = (\<lambda>stack s. Inl OutOfFuel),
      pParseNextExpression = (\<lambda>s. Inl OutOfFuel),
      pRunExtension = (\<lambda>ex s. Inl OutOfFuel),
      pParseParentheses = (\<lambda>s. Inl OutOfFuel),
      pParseOperator = (\<lambda>stack eval s. Inl OutOfFuel),
      pParseIdentAlternative = (\<lambda>fullname keys s. Inl OutOfFuel),
      pParseArguments = (\<lambda>s. Inl OutOfFuel),
      pParseArgumentsLoop = (\<lambda>args s. Inl OutOfFuel),
      pParseIf = (\<lambda>e s. Inl OutOfFuel),
      pParseJSONArray = (\<lambda>evals s. Inl OutOfFuel)\<rparr>"
| "parser l (Suc n) =
     \<lparr>pParseExpression = ParseExpression (parser l n),
      pParseExpressionLoop = ParseExpressionLoop (parser l n),
      pParseNextExpression = ParseNextExpression l (parser l n),
      pRunExtension = runExtension l (parser l n),
      pParseParentheses = parseParentheses (parser l n),
      pParseOperator = parseOperator l (parser l n),
      pParseIdentAlternative = parseIdentAlternative l (parser l n),
      pParseArguments = parseArguments (parser l n),
      pParseArgumentsLoop = parseArgumentsLoop (parser l n),
      pParseIf = parseIf (parser l n),
      pParseJSONArray = parseJSONArray (parser l n)\<rparr>"

text \<open>\<open>p.parse\<close>: the initial parser function of the language, or \<open>ParseExpression\<close>.\<close>

definition parse :: "Language \<Rightarrow> nat \<Rightarrow> Parser \<Rightarrow> Evaluable parsed" where
  "parse l n s =
     (case initExtension l of
        Some i \<Rightarrow> pRunExtension (parser l n) i s
      | None \<Rightarrow> pParseExpression (parser l n) s)"

text \<open>
  Modelled from the spec: compiling an expression text (\<open>NewEvaluable\<close>) and evaluating it
  (\<open>Evaluate\<close>); neither is under src/. The text is parsed from a fresh parser, and a
  token that is left over is an error. \<open>n\<close> bounds the depth of the parser's calls.
\<close>

definition NewEvaluable :: "Language \<Rightarrow> nat \<Rightarrow> string \<Rightarrow> error + Evaluable" where
  "NewEvaluable l n expression =
     (case parse l n (newParser expression) of
        Inl err \<Rightarrow> Inl err
      | Inr (eval, s) \<Rightarrow>
          if camouflaged s \<and> lastScan s \<noteq> EOF then Inl (Expected ''operator'') else Inr eval)"

definition Evaluate :: "Language \<Rightarrow> nat \<Rightarrow> string \<Rightarrow> Context \<Rightarrow> val \<Rightarrow> result" where
  "Evaluate l n expression c parameter =
     (case NewEvaluable l n expression of
        Inl err \<Rightarrow> Inl err
      | Inr eval \<Rightarrow> eval c parameter)"


section \<open>Operator bodies of the bitmask and text languages\<close>

subsection \<open>Bitmask (gval.go)\<close>

unbundle bit_operations_syntax

text \<open>
  The Go conversions \<open>int64(x)\<close> and \<open>uint64(x)\<close> of a \<open>float64\<close> discard the
  fraction. Where the truncated value is not in the range of the type, and for the
  infinities and NaN, Go leaves the result to the implementation; the model has no value
  there. An \<open>int64\<close> is modelled by the integer it denotes.
\<close>

definition truncate :: "real \<Rightarrow> int" where
  "truncate r = (if 0 \<le> r then \<lfloor>r\<rfloor> else \<lceil>r\<rceil>)"

definition int64 :: "float64 \<Rightarrow> int option" where
  "int64 x =
     (case x of
        Fin r \<Rightarrow> if - (2 ^ 63) \<le> truncate r \<and> truncate r < 2 ^ 63 then Some (truncate r) else None
      | _ \<Rightarrow> None)"

definition uint64 :: "float64 \<Rightarrow> nat option" where
  "uint64 x =
     (case x of
        Fin r \<Rightarrow> if 0 \<le> truncate r \<and> truncate r < 2 ^ 64 then Some (nat (truncate r)) else None
      | _ \<Rightarrow> None)"

text \<open>\<open>float64(int64(a) op int64(b))\<close> for the operators \<open>^\<close>, \<open>&\<close> and \<open>|\<close>.\<close>

definition bitwise :: "(int \<Rightarrow> int \<Rightarrow> int) \<Rightarrow> float64 \<Rightarrow> float64 \<Rightarrow> result" where
  "bitwise f a b =
     (case int64 a of
        None \<Rightarrow> Inl (Unmodelled ''int64 of a float64 out of range'')
      | Some x \<Rightarrow>
          (case int64 b of
             None \<Rightarrow> Inl (Unmodelled ''int64 of a float64 out of range'')
           | Some y \<Rightarrow> Inr (VNum (Fin (of_int (f x y))))))"

text \<open>
  \<open>float64(int64(a) << uint64(b))\<close> and \<open>float64(int64(a) >> uint64(b))\<close>. The left
  shift keeps the low 64 bits as a signed integer, the right shift extends the sign.
\<close>

definition shift :: "(nat \<Rightarrow> int \<Rightarrow> int) \<Rightarrow> float64 \<Rightarrow> float64 \<Rightarrow> result" where
  "shift f a b =
     (case int64 a of
        None \<Rightarrow> Inl (Unmodelled ''int64 of a float64 out of range'')
      | Some x \<Rightarrow>
          (case uint64 b of
             None \<Rightarrow> Inl (Unmodelled ''uint64 of a float64 out of range'')
           | Some n \<Rightarrow> Inr (VNum (Fin (of_int (f n x))))))"

definition shiftLeft :: "nat \<Rightarrow> int \<Rightarrow> int" where
  "shiftLeft n x = signed_take_bit 63 (push_bit n x)"

definition shiftRight :: "nat \<Rightarrow> int \<Rightarrow> int" where
  "shiftRight n x = drop_bit n x"

text \<open>The body of the prefix operator \<open>~\<close>.\<close>

definition bitwiseNot :: "Context \<Rightarrow> val \<Rightarrow> result" where
  "bitwiseNot c v =
     (case convertToFloat v of
        None \<Rightarrow> Inl (TypeError (typeName v))
      | Some i \<Rightarrow>
          (case int64 i of
             None \<Rightarrow> Inl (Unmodelled ''int64 of a float64 out of range'')
           | Some x \<Rightarrow> Inr (VNum (Fin (of_int (NOT x))))))"

subsection \<open>Text (gval.go, parse.go)\<close>

text \<open>The order \<open>a < b\<close> of Go strings: lexicographic on the bytes.\<close>

fun stringLess :: "string \<Rightarrow> string \<Rightarrow> bool" where
  "stringLess [] [] = False"
| "stringLess [] (y # ys) = True"
| "stringLess (x # xs) [] = False"
| "stringLess (x # xs) (y # ys) =
     (if x = y then stringLess xs ys else (of_char x :: nat) < of_char y)"

definition startsWithOp :: "string \<Rightarrow> string \<Rightarrow> result" where
  "startsWithOp a b = Inr (VBool (HasPrefix a b))"

definition containsOp :: "string \<Rightarrow> string \<Rightarrow> result" where
  "containsOp a b = Inr (VBool (Contains a b))"

text \<open>
  Modelled from the spec: \<open>endsWithOp\<close>, \<open>matchOp\<close>, \<open>regEx\<close> and \<open>notRegEx\<close> are
  registered by \<open>text\<close> and not under src/, and the spec leaves the bodies of the string
  comparison and regex operators out of its scope. The model registers the four
  operators, so that the names are known to the parser, and reports their application
  as not modelled.
\<close>

definition endsWithOp :: "string \<Rightarrow> string \<Rightarrow> result" where
  "endsWithOp a b = Inl (Unmodelled ''endsWithOp'')"

definition matchOp :: "string \<Rightarrow> string \<Rightarrow> result" where
  "matchOp a b = Inl (Unmodelled ''matchOp'')"

definition regEx :: infixBuilder where
  "regEx a b = Inl (Unmodelled ''regEx'')"

definition notRegEx :: infixBuilder where
  "notRegEx a b = Inl (Unmodelled ''notRegEx'')"

subsection \<open>The function \<open>date\<close> (gval.go)\<close>

text \<open>
  \<open>date\<close> expects exactly one string. Parsing that string as a time
  (\<open>time.ParseInLocation\<close> with each of the listed layouts) is outside the model.
\<close>

definition date :: "val list \<Rightarrow> result" where
  "date arguments =
     (case arguments of
        [VStr s] \<Rightarrow> Inl (Unmodelled ''time.ParseInLocation'')
      | _ \<Rightarrow> Inl (Errorf ''date() expects exactly one string argument''))"


section \<open>The languages of gval.go\<close>

text \<open>
  The languages are composed as in gval.go, entry by entry and in the same order. Left
  out are the entries whose functions are outside the model: in \<open>base\<close> the three
  extensions for string, char and raw-string literals (\<open>parseString\<close>; the token
  source of the model scans no such literal), and in \<open>ljson\<close> the object literal
  (\<open>parseJSONObject\<close>).
\<close>

definition ternaryOperator :: Language where
  "ternaryOperator = PostfixOperator ''?'' PostfixIf"

definition ljson :: Language where
  "ljson = NewLanguage [PrefixExtension (Sym CHR ''['') ExtJSONArray]"

definition parentheses :: Language where
  "parentheses = NewLanguage [PrefixExtension (Sym CHR ''('') ExtParentheses]"

definition ident :: Language where
  "ident = NewLanguage [PrefixMetaPrefix Ident ExtIdent]"

definition base :: Language where
  "base = NewLanguage [
     PrefixExtension IntTok ExtNumber,
     PrefixExtension FloatTok ExtNumber,
     PrefixOperator ''-'' negative,

     Constant ''true'' (VBool True),
     Constant ''false'' (VBool False),
     Constant ''nil'' VNil,

     InfixOperator ''=='' baseEqual,
     InfixOperator ''!='' baseNotEqual,
     parentheses,

     Precedence ''??'' 0,

     Precedence ''||'' 20,
     Precedence ''&&'' 21,

     Precedence ''=='' 40,
     Precedence ''!='' 40,
     Precedence ''>'' 40,
     Precedence ''>='' 40,
     Precedence ''<'' 40,
     Precedence ''<='' 40,
     Precedence ''=~'' 40,
     Precedence ''!~'' 40,
     Precedence ''in'' 40,
     Precedence ''sw'' 40,
     Precedence ''co'' 40,
     Precedence ''ew'' 40,
     Precedence ''mw'' 40,
     Precedence ''cfa'' 40,
     Precedence ''cfm'' 40,

     Precedence ''^'' 60,
     Precedence ''&'' 60,
     Precedence ''|'' 60,

     Precedence ''<<'' 90,
     Precedence ''>>'' 90,

     Precedence ''+'' 120,
     Precedence ''-'' 120,

     Precedence ''*'' 150,
     Precedence ''/'' 150,
     Precedence ''%'' 150,

     Precedence ''**'' 200,

     ident]"

definition arithmetic :: Language where
  "arithmetic = NewLanguage [
     InfixNumberOperator ''+'' (\<lambda>a b. Inr (VNum (fadd a b))),
     InfixNumberOperator ''-'' (\<lambda>a b. Inr (VNum (fsub a b))),
     InfixNumberOperator ''*'' (\<lambda>a b. Inr (VNum (fmul a b))),
     InfixNumberOperator ''/'' (\<lambda>a b. Inr (VNum (fdiv a b))),
     InfixNumberOperator ''%'' (\<lambda>a b. Inr (VNum (math_Mod a b))),
     InfixNumberOperator ''**'' (\<lambda>a b. Inr (VNum (math_Pow a b))),

     InfixNumberOperator ''>'' (\<lambda>a b. Inr (VBool (fless b a))),
     InfixNumberOperator ''>='' (\<lambda>a b. Inr (VBool (fleq b a))),
     InfixNumberOperator ''<'' (\<lambda>a b. Inr (VBool (fless a b))),
     InfixNumberOperator ''<='' (\<lambda>a b. Inr (VBool (fleq a b))),

     InfixNumberOperator ''=='' (\<lambda>a b. Inr (VBool (feq a b))),
     InfixNumberOperator ''!='' (\<lambda>a b. Inr (VBool (\<not> feq a b))),

     base]"

definition bitmask :: Language where
  "bitmask = NewLanguage [
     InfixNumberOperator ''^'' (bitwise (\<lambda>x y. x XOR y)),
     InfixNumberOperator ''&'' (bitwise (\<lambda>x y. x AND y)),
     InfixNumberOperator ''|'' (bitwise (\<lambda>x y. x OR y)),
     InfixNumberOperator ''<<'' (shift shiftLeft),
     InfixNumberOperator ''>>'' (shift shiftRight),

     PrefixOperator ''~'' bitwiseNot]"

text \<open>The language \<open>text\<close> of gval.go; its name is a keyword here.\<close>

definition ltext :: Language where
  "ltext = NewLanguage [
     InfixTextOperator ''+'' (\<lambda>a b. Inr (VStr (a @ b))),

     InfixTextOperator ''<'' (\<lambda>a b. Inr (VBool (stringLess a b))),
     InfixTextOperator ''<='' (\<lambda>a b. Inr (VBool (\<not> stringLess b a))),
     InfixTextOperator ''>'' (\<lambda>a b. Inr (VBool (stringLess b a))),
     InfixTextOperator ''>='' (\<lambda>a b. Inr (VBool (\<not> stringLess a b))),
     InfixTextOperator ''sw'' startsWithOp,
     InfixTextOperator ''co'' containsOp,
     InfixTextOperator ''ew'' endsWithOp,
     InfixTextOperator ''mw'' matchOp,

     InfixEvalOperator ''=~'' regEx,
     InfixEvalOperator ''!~'' notRegEx,
     base]"

definition propositionalLogic :: Language where
  "propositionalLogic = NewLanguage [
     PrefixOperator ''!'' logicalNot,

     InfixShortCircuit ''&&'' andShortCircuit,
     InfixBoolOperator ''&&'' (\<lambda>a b. Inr (VBool (a \<and> b))),
     InfixShortCircuit ''||'' orShortCircuit,
     InfixBoolOperator ''||'' (\<lambda>a b. Inr (VBool (a \<or> b))),

     InfixBoolOperator ''=='' (\<lambda>a b. Inr (VBool (a = b))),
     InfixBoolOperator ''!='' (\<lambda>a b. Inr (VBool (a \<noteq> b))),

     base]"

definition full :: Language where
  "full = NewLanguage [arithmetic, bitmask, ltext, propositionalLogic, ljson,

     InfixOperator ''in'' inArray,

     InfixShortCircuit ''??'' coalesceShortCircuit,
     InfixOperator ''??'' coalesce,

     InfixOperator ''cfa'' (\<lambda>a b. fst (cfaOperator a b)),
     InfixOperator ''cfm'' (\<lambda>a b. fst (cfmOperator a b)),

     ternaryOperator,

     Function ''date'' date]"

text \<open>\<open>Full(extensions...)\<close>: \<open>full\<close> extended by further languages.\<close>

definition Full :: "Language list \<Rightarrow> Language" where
  "Full extensions = (if extensions = [] then full else NewLanguage (full # extensions))"

text \<open>
  \<open>enhancedComparisons\<close> (tolerant.go): the two equality operators. Its four order
  comparisons format their operands with \<open>fmt.Sprintf\<close> and are outside the model.
\<close>

definition enhancedComparisons :: Language where
  "enhancedComparisons = NewLanguage [
     InfixEvalOperator ''=='' (\<lambda>a b. Inr (enhancedEqual a b)),
     InfixEvalOperator ''!='' (\<lambda>a b. Inr (enhancedNotEqual a b))]"


section \<open>Properties of the filter operators\<close>

subsection \<open>The first-match loop and the swap\<close>

lemma firstMatch_None: "firstMatch P xs i = None \<longleftrightarrow> \<not> list_ex P xs"
  by (induction xs arbitrary: i) auto

lemma firstMatch_Some_bound:
  "firstMatch P xs i = Some j \<Longrightarrow> i \<le> j \<and> j < i + length xs \<and> P (xs ! (j - i))"
proof (induction xs arbitrary: i)
  case Nil
  then show ?case by simp
next
  case (Cons x xs)
  show ?case
  proof (cases "P x")
    case True
    with Cons.prems show ?thesis by simp
  next
    case False
    with Cons.prems have "firstMatch P xs (Suc i) = Some j" by simp
    from Cons.IH [OF this] show ?thesis
      by (auto simp: nth_Cons' Suc_diff_le)
  qed
qed

lemma firstMatch_head: "xs \<noteq> [] \<Longrightarrow> P (xs ! 0) \<Longrightarrow> firstMatch P xs i = Some i"
  by (cases xs) auto

lemma swapFirst_0: "swapFirst s 0 = s"
  by (simp add: swapFirst_def)

lemma swapFirst_nth0: "i < length s \<Longrightarrow> swapFirst s i ! 0 = s ! i"
  by (cases s; cases i) (auto simp: swapFirst_def)

lemma swapFirst_Nil: "swapFirst s i = [] \<longleftrightarrow> s = []"
  by (simp add: swapFirst_def)

lemma swapFirst_length: "length (swapFirst s i) = length s"
  by (simp add: swapFirst_def)

lemma firstMatch_swapFirst:
  assumes "firstMatch P s 0 = Some i"
  shows "firstMatch P (swapFirst s i) 0 = Some 0"
proof -
  from firstMatch_Some_bound [OF assms] have i: "i < length s" and p: "P (s ! i)" by auto
  then have "swapFirst s i \<noteq> []" using swapFirst_length [of s i] by auto
  moreover have "P (swapFirst s i ! 0)" using i p by (simp add: swapFirst_nth0)
  ultimately show ?thesis by (rule firstMatch_head)
qed

subsection \<open>Facts about \<open>cfaOperator\<close> and \<open>cfmOperator\<close>\<close>

lemma cfa_reapply: "cfaOperator (snd (cfaOperator a b)) b = cfaOperator a b"
  by (auto simp: cfaOperator_def firstMatch_swapFirst swapFirst_0 swapFirst_Nil split: val.splits option.splits)

lemma cfm_reapply: "cfmOperator (snd (cfmOperator a b)) b = cfmOperator a b"
  by (auto simp: cfmOperator_def firstMatch_swapFirst swapFirst_0 swapFirst_Nil split: val.splits option.splits)

lemma cfa_False_unchanged:
  "fst (cfaOperator a b) = Inr (VBool False) \<Longrightarrow> snd (cfaOperator a b) = a"
  by (auto simp: cfaOperator_def split: val.splits option.splits if_splits)

lemma cfm_False_unchanged:
  "fst (cfmOperator a b) = Inr (VBool False) \<Longrightarrow> snd (cfmOperator a b) = a"
  by (auto simp: cfmOperator_def split: val.splits option.splits if_splits)

lemma firstMatch_no_match: "\<not> list_ex P xs \<Longrightarrow> firstMatch P xs i = None"
  by (simp add: firstMatch_None)

lemma cfa_total: "\<exists>r. fst (cfaOperator a b) = Inr (VBool r)"
  by (auto simp: cfaOperator_def split: val.splits option.splits)

lemma cfm_total: "\<exists>r. fst (cfmOperator a b) = Inr (VBool r)"
  by (auto simp: cfmOperator_def split: val.splits option.splits)

lemma cfa_rhs_not_list: "(\<forall>bSlice. b \<noteq> VList bSlice) \<Longrightarrow> cfaOperator a b = (Inr (VBool False), a)"
  by (cases b) (simp_all add: cfaOperator_def)

lemma cfm_rhs_not_list: "(\<forall>bSlice. b \<noteq> VList bSlice) \<Longrightarrow> cfmOperator a b = (Inr (VBool False), a)"
  by (cases b) (simp_all add: cfmOperator_def)

lemma cfa_rhs_short: "length bSlice < 2 \<Longrightarrow> cfaOperator a (VList bSlice) = (Inr (VBool False), a)"
  by (simp add: cfaOperator_def)

lemma cfm_rhs_short: "length bSlice < 3 \<Longrightarrow> cfmOperator a (VList bSlice) = (Inr (VBool False), a)"
  by (simp add: cfmOperator_def)

lemma cfa_rhs_not_string:
  "n < 2 \<Longrightarrow> \<forall>s. bSlice ! n \<noteq> VStr s \<Longrightarrow> cfaOperator a (VList bSlice) = (Inr (VBool False), a)"
proof -
  assume n: "n < 2" and ns: "\<forall>s. bSlice ! n \<noteq> VStr s"
  from n have "n = 0 \<or> n = 1" by auto
  with ns show ?thesis
    by (auto simp: cfaOperator_def split: val.splits)
qed

lemma cfm_rhs_not_string:
  "n < 3 \<Longrightarrow> \<forall>s. bSlice ! n \<noteq> VStr s \<Longrightarrow> cfmOperator a (VList bSlice) = (Inr (VBool False), a)"
proof -
  assume n: "n < 3" and ns: "\<forall>s. bSlice ! n \<noteq> VStr s"
  from n have "n = 0 \<or> n = 1 \<or> n = 2" by auto
  with ns show ?thesis
    by (auto simp: cfmOperator_def numeral_2_eq_2 split: val.splits)
qed

lemma cfa_lhs_unsupported:
  "\<forall>s. a \<noteq> VList s \<Longrightarrow> \<forall>s. a \<noteq> VSlices s \<Longrightarrow> cfaOperator a b = (Inr (VBool False), a)"
  by (cases a) (auto simp: cfaOperator_def split: val.splits)

lemma cfm_lhs_unsupported:
  "\<forall>s. a \<noteq> VList s \<Longrightarrow> \<forall>s. a \<noteq> VMaps s \<Longrightarrow> cfmOperator a b = (Inr (VBool False), a)"
  by (cases a) (auto simp: cfmOperator_def split: val.splits)

lemma cfa_no_match_list:
  "\<not> list_ex (stringMatches t op) s \<Longrightarrow>
     cfaOperator (VList s) (VList (VStr t # VStr op # rest)) = (Inr (VBool False), VList s)"
  by (auto simp: cfaOperator_def firstMatch_no_match)

lemma cfa_no_match_slices:
  "\<not> list_ex (list_ex (stringMatches t op)) ss \<Longrightarrow>
     cfaOperator (VSlices ss) (VList (VStr t # VStr op # rest)) = (Inr (VBool False), VSlices ss)"
  by (auto simp: cfaOperator_def firstMatch_no_match)

lemma cfm_no_match_list:
  "\<not> list_ex (itemMatches f t op) s \<Longrightarrow>
     cfmOperator (VList s) (VList (VStr f # VStr op # VStr t # rest)) = (Inr (VBool False), VList s)"
  by (auto simp: cfmOperator_def firstMatch_no_match numeral_2_eq_2)

lemma cfm_no_match_maps:
  "\<not> list_ex (fieldMatches f t op) ms \<Longrightarrow>
     cfmOperator (VMaps ms) (VList (VStr f # VStr op # VStr t # rest)) = (Inr (VBool False), VMaps ms)"
  by (auto simp: cfmOperator_def firstMatch_no_match numeral_2_eq_2)

lemma matchesCondition_default:
  "operator \<notin> set [''equal'', ''eq'', ''=='', ''notequal'', ''ne'', ''!='', ''startswith'', ''sw'',
       ''endswith'', ''ew'', ''contains'', ''co''] \<Longrightarrow>
   matchesCondition v t operator = (v = t)"
  by (simp add: matchesCondition_def)

subsection \<open>C1: the filter operators and their left operand\<close>

text \<open>The loop stops at the first element that satisfies the test.\<close>

lemma firstMatch_least:
  "i < length s \<Longrightarrow> P (s ! i) \<Longrightarrow> \<forall>j<i. \<not> P (s ! j) \<Longrightarrow> firstMatch P s k = Some (k + i)"
proof (induction s arbitrary: i k)
  case Nil
  then show ?case by simp
next
  case (Cons x xs)
  show ?case
  proof (cases i)
    case 0
    with Cons.prems show ?thesis by simp
  next
    case (Suc n)
    with Cons.prems have n: "n < length xs" and p: "P (xs ! n)" by auto
    from Cons.prems(3) Suc have "\<not> P ((x # xs) ! 0)" by blast
    then have x: "\<not> P x" by simp
    have "\<forall>j<n. \<not> P (xs ! j)"
    proof (intro allI impI)
      fix j assume "j < n"
      then have "Suc j < i" using Suc by simp
      with Cons.prems(3) have "\<not> P ((x # xs) ! Suc j)" by blast
      then show "\<not> P (xs ! j)" by simp
    qed
    from Cons.IH [OF n p this, of "Suc k"] x Suc show ?thesis by simp
  qed
qed

lemma firstMatch_first:
  "i < length s \<Longrightarrow> P (s ! i) \<Longrightarrow> \<forall>j<i. \<not> P (s ! j) \<Longrightarrow> firstMatch P s 0 = Some i"
  using firstMatch_least [of i s P 0] by simp

text \<open>
  With well-formed arguments, when the element at index \<open>i\<close> is the first that matches,
  the operator returns \<open>true\<close> and has exchanged the elements at the indices 0 and \<open>i\<close>.
\<close>

lemma cfa_swap_list:
  "i < length s \<Longrightarrow> stringMatches t op (s ! i) \<Longrightarrow> \<forall>j<i. \<not> stringMatches t op (s ! j) \<Longrightarrow>
   cfaOperator (VList s) (VList (VStr t # VStr op # rest))
     = (Inr (VBool True), VList (s[0 := s ! i, i := s ! 0]))"
  by (auto simp: cfaOperator_def firstMatch_first swapFirst_def)

lemma cfa_swap_slices:
  "i < length ss \<Longrightarrow> list_ex (stringMatches t op) (ss ! i) \<Longrightarrow>
   \<forall>j<i. \<not> list_ex (stringMatches t op) (ss ! j) \<Longrightarrow>
   cfaOperator (VSlices ss) (VList (VStr t # VStr op # rest))
     = (Inr (VBool True), VSlices (ss[0 := ss ! i, i := ss ! 0]))"
  by (auto simp: cfaOperator_def firstMatch_first swapFirst_def)

lemma cfm_swap_maps:
  "i < length ms \<Longrightarrow> fieldMatches f t op (ms ! i) \<Longrightarrow> \<forall>j<i. \<not> fieldMatches f t op (ms ! j) \<Longrightarrow>
   cfmOperator (VMaps ms) (VList (VStr f # VStr op # VStr t # rest))
     = (Inr (VBool True), VMaps (ms[0 := ms ! i, i := ms ! 0]))"
  by (auto simp: cfmOperator_def firstMatch_first swapFirst_def numeral_2_eq_2)

lemma cfm_swap_list:
  "i < length items \<Longrightarrow> itemMatches f t op (items ! i) \<Longrightarrow>
   \<forall>j<i. \<not> itemMatches f t op (items ! j) \<Longrightarrow>
   cfmOperator (VList items) (VList (VStr f # VStr op # VStr t # rest))
     = (Inr (VBool True), VList (items[0 := items ! i, i := items ! 0]))"
  by (auto simp: cfmOperator_def firstMatch_first swapFirst_def numeral_2_eq_2)

text \<open>
  C1 asks that evaluation has no observable effect on the input, and in particular that
  \<open>cfa\<close> and \<open>cfm\<close> neither reorder nor mutate the slice they are applied to. Both
  reorder it. \<open>cfaOperator\<close> applied to the slice \<open>["a", "b"]\<close> with the arguments
  \<open>["b", "equal"]\<close> returns \<open>true\<close> and leaves the slice as \<open>["b", "a"]\<close>;
  \<open>cfmOperator\<close> applied to the slice of maps \<open>[{"k": "a"}, {"k": "b"}]\<close> with the
  arguments \<open>["k", "equal", "b"]\<close> returns \<open>true\<close> and leaves the slice as
  \<open>[{"k": "b"}, {"k": "a"}]\<close>.
\<close>

theorem C1_filter_operators_mutate_counterexample:
  "cfaOperator (VList [VStr ''a'', VStr ''b'']) (VList [VStr ''b'', VStr ''equal''])
     = (Inr (VBool True), VList [VStr ''b'', VStr ''a''])
   \<and> snd (cfaOperator (VList [VStr ''a'', VStr ''b'']) (VList [VStr ''b'', VStr ''equal'']))
     \<noteq> VList [VStr ''a'', VStr ''b'']
   \<and> cfmOperator (VMaps [[(''k'', VStr ''a'')], [(''k'', VStr ''b'')]])
        (VList [VStr ''k'', VStr ''equal'', VStr ''b''])
     = (Inr (VBool True), VMaps [[(''k'', VStr ''b'')], [(''k'', VStr ''a'')]])
   \<and> snd (cfmOperator (VMaps [[(''k'', VStr ''a'')], [(''k'', VStr ''b'')]])
        (VList [VStr ''k'', VStr ''equal'', VStr ''b'']))
     \<noteq> VMaps [[(''k'', VStr ''a'')], [(''k'', VStr ''b'')]]"
  by (simp add: cfaOperator_def cfmOperator_def fieldMatches_def stringMatches_def
      matchesCondition_def swapFirst_def)

text \<open>
  C1, as the code has it: \<open>cfa\<close> and \<open>cfm\<close> reorder their left operand in place. With
  well-formed arguments, when the element at index \<open>i\<close> is the first element of the left
  operand that matches, the operator returns \<open>true\<close> and has exchanged the elements at
  the indices 0 and \<open>i\<close>; this holds for \<open>cfa\<close> on a generic list and on a slice of
  slices, and for \<open>cfm\<close> on a slice of maps and on a generic list. Applying \<open>cfa\<close> or
  \<open>cfm\<close> again to the operand that the first application left behind returns the same
  result and changes nothing further, and an application that returns \<open>false\<close> leaves
  its operand as it was.
\<close>

theorem C1_filter_operators_swap:
  "(i < length s \<and> stringMatches t op (s ! i) \<and> (\<forall>j<i. \<not> stringMatches t op (s ! j))
      \<longrightarrow> cfaOperator (VList s) (VList (VStr t # VStr op # rest))
            = (Inr (VBool True), VList (s[0 := s ! i, i := s ! 0])))
   \<and> (i < length ss \<and> list_ex (stringMatches t op) (ss ! i)
        \<and> (\<forall>j<i. \<not> list_ex (stringMatches t op) (ss ! j))
      \<longrightarrow> cfaOperator (VSlices ss) (VList (VStr t # VStr op # rest))
            = (Inr (VBool True), VSlices (ss[0 := ss ! i, i := ss ! 0])))
   \<and> (i < length ms \<and> fieldMatches f t op (ms ! i) \<and> (\<forall>j<i. \<not> fieldMatches f t op (ms ! j))
      \<longrightarrow> cfmOperator (VMaps ms) (VList (VStr f # VStr op # VStr t # rest))
            = (Inr (VBool True), VMaps (ms[0 := ms ! i, i := ms ! 0])))
   \<and> (i < length items \<and> itemMatches f t op (items ! i)
        \<and> (\<forall>j<i. \<not> itemMatches f t op (items ! j))
      \<longrightarrow> cfmOperator (VList items) (VList (VStr f # VStr op # VStr t # rest))
            = (Inr (VBool True), VList (items[0 := items ! i, i := items ! 0])))
   \<and> cfaOperator (snd (cfaOperator a b)) b = cfaOperator a b
   \<and> cfmOperator (snd (cfmOperator a b)) b = cfmOperator a b
   \<and> (fst (cfaOperator a b) = Inr (VBool False) \<longrightarrow> snd (cfaOperator a b) = a)
   \<and> (fst (cfmOperator a b) = Inr (VBool False) \<longrightarrow> snd (cfmOperator a b) = a)"
proof (intro conjI impI)
  assume "i < length s \<and> stringMatches t op (s ! i) \<and> (\<forall>j<i. \<not> stringMatches t op (s ! j))"
  then show "cfaOperator (VList s) (VList (VStr t # VStr op # rest))
      = (Inr (VBool True), VList (s[0 := s ! i, i := s ! 0]))"
    by (simp add: cfa_swap_list)
next
  assume "i < length ss \<and> list_ex (stringMatches t op) (ss ! i)
      \<and> (\<forall>j<i. \<not> list_ex (stringMatches t op) (ss ! j))"
  then show "cfaOperator (VSlices ss) (VList (VStr t # VStr op # rest))
      = (Inr (VBool True), VSlices (ss[0 := ss ! i, i := ss ! 0]))"
    by (simp add: cfa_swap_slices)
next
  assume "i < length ms \<and> fieldMatches f t op (ms ! i) \<and> (\<forall>j<i. \<not> fieldMatches f t op (ms ! j))"
  then show "cfmOperator (VMaps ms) (VList (VStr f # VStr op # VStr t # rest))
      = (Inr (VBool True), VMaps (ms[0 := ms ! i, i := ms ! 0]))"
    by (simp add: cfm_swap_maps)
next
  assume "i < length items \<and> itemMatches f t op (items ! i)
      \<and> (\<forall>j<i. \<not> itemMatches f t op (items ! j))"
  then show "cfmOperator (VList items) (VList (VStr f # VStr op # VStr t # rest))
      = (Inr (VBool True), VList (items[0 := items ! i, i := items ! 0]))"
    by (simp add: cfm_swap_list)
next
  show "cfaOperator (snd (cfaOperator a b)) b = cfaOperator a b" by (rule cfa_reapply)
next
  show "cfmOperator (snd (cfmOperator a b)) b = cfmOperator a b" by (rule cfm_reapply)
next
  assume "fst (cfaOperator a b) = Inr (VBool False)"
  then show "snd (cfaOperator a b) = a" by (rule cfa_False_unchanged)
next
  assume "fst (cfmOperator a b) = Inr (VBool False)"
  then show "snd (cfmOperator a b) = a" by (rule cfm_False_unchanged)
qed

text \<open>
  The hypotheses of C1's theorem hold where the second element is the first that
  matches, for each of the four shapes of the left operand, and where no element matches.
\<close>

theorem C1_filter_operators_swap_witness:
  "cfaOperator (VList [VStr ''a'', VStr ''b'', VStr ''c'']) (VList [VStr ''b'', VStr ''equal''])
     = (Inr (VBool True), VList [VStr ''b'', VStr ''a'', VStr ''c''])
   \<and> cfaOperator (VSlices [[VStr ''a''], [VStr ''x'', VStr ''b''], []]) (VList [VStr ''b'', VStr ''equal''])
     = (Inr (VBool True), VSlices [[VStr ''x'', VStr ''b''], [VStr ''a''], []])
   \<and> cfmOperator (VMaps [[(''k'', VStr ''a'')], [(''k'', VStr ''b'')]])
        (VList [VStr ''k'', VStr ''equal'', VStr ''b''])
     = (Inr (VBool True), VMaps [[(''k'', VStr ''b'')], [(''k'', VStr ''a'')]])
   \<and> cfmOperator (VList [VNum (Fin 1), VMap [(''k'', VStr ''b'')]])
        (VList [VStr ''k'', VStr ''equal'', VStr ''b''])
     = (Inr (VBool True), VList [VMap [(''k'', VStr ''b'')], VNum (Fin 1)])
   \<and> fst (cfaOperator (VList [VStr ''a'']) (VList [VStr ''z'', VStr ''eq''])) = Inr (VBool False)
   \<and> snd (cfaOperator (VList [VStr ''a'']) (VList [VStr ''z'', VStr ''eq''])) = VList [VStr ''a'']
   \<and> fst (cfmOperator (VMaps [[(''k'', VStr ''a'')]]) (VList [VStr ''k'', VStr ''eq'', VStr ''z''])) = Inr (VBool False)
   \<and> snd (cfmOperator (VMaps [[(''k'', VStr ''a'')]]) (VList [VStr ''k'', VStr ''eq'', VStr ''z'']))
       = VMaps [[(''k'', VStr ''a'')]]"
proof -
  have h1: "(1::nat) < length [VStr ''a'', VStr ''b'', VStr ''c'']
      \<and> stringMatches ''b'' ''equal'' ([VStr ''a'', VStr ''b'', VStr ''c''] ! 1)
      \<and> (\<forall>j<1. \<not> stringMatches ''b'' ''equal'' ([VStr ''a'', VStr ''b'', VStr ''c''] ! j))"
    by (simp add: stringMatches_def matchesCondition_def)
  have h2: "(1::nat) < length [[VStr ''a''], [VStr ''x'', VStr ''b''], []]
      \<and> list_ex (stringMatches ''b'' ''equal'') ([[VStr ''a''], [VStr ''x'', VStr ''b''], []] ! 1)
      \<and> (\<forall>j<1. \<not> list_ex (stringMatches ''b'' ''equal'') ([[VStr ''a''], [VStr ''x'', VStr ''b''], []] ! j))"
    by (simp add: stringMatches_def matchesCondition_def)
  have h3: "(1::nat) < length [[(''k'', VStr ''a'')], [(''k'', VStr ''b'')]]
      \<and> fieldMatches ''k'' ''b'' ''equal'' ([[(''k'', VStr ''a'')], [(''k'', VStr ''b'')]] ! 1)
      \<and> (\<forall>j<1. \<not> fieldMatches ''k'' ''b'' ''equal'' ([[(''k'', VStr ''a'')], [(''k'', VStr ''b'')]] ! j))"
    by (simp add: fieldMatches_def stringMatches_def matchesCondition_def)
  have h4: "(1::nat) < length [VNum (Fin 1), VMap [(''k'', VStr ''b'')]]
      \<and> itemMatches ''k'' ''b'' ''equal'' ([VNum (Fin 1), VMap [(''k'', VStr ''b'')]] ! 1)
      \<and> (\<forall>j<1. \<not> itemMatches ''k'' ''b'' ''equal'' ([VNum (Fin 1), VMap [(''k'', VStr ''b'')]] ! j))"
    by (simp add: itemMatches_def fieldMatches_def stringMatches_def matchesCondition_def)
  from h1 h2 h3 h4
    C1_filter_operators_swap [where i = 1 and t = "''b''" and op = "''equal''" and f = "''k''"
      and a = VNil and b = VNil and rest = "[]" and s = "[VStr ''a'', VStr ''b'', VStr ''c'']"
      and ss = "[[VStr ''a''], [VStr ''x'', VStr ''b''], []]"
      and ms = "[[(''k'', VStr ''a'')], [(''k'', VStr ''b'')]]"
      and items = "[VNum (Fin 1), VMap [(''k'', VStr ''b'')]]"]
  have swaps: "cfaOperator (VList [VStr ''a'', VStr ''b'', VStr ''c'']) (VList [VStr ''b'', VStr ''equal''])
       = (Inr (VBool True), VList [VStr ''b'', VStr ''a'', VStr ''c''])
     \<and> cfaOperator (VSlices [[VStr ''a''], [VStr ''x'', VStr ''b''], []]) (VList [VStr ''b'', VStr ''equal''])
       = (Inr (VBool True), VSlices [[VStr ''x'', VStr ''b''], [VStr ''a''], []])
     \<and> cfmOperator (VMaps [[(''k'', VStr ''a'')], [(''k'', VStr ''b'')]])
          (VList [VStr ''k'', VStr ''equal'', VStr ''b''])
       = (Inr (VBool True), VMaps [[(''k'', VStr ''b'')], [(''k'', VStr ''a'')]])
     \<and> cfmOperator (VList [VNum (Fin 1), VMap [(''k'', VStr ''b'')]])
          (VList [VStr ''k'', VStr ''equal'', VStr ''b''])
       = (Inr (VBool True), VList [VMap [(''k'', VStr ''b'')], VNum (Fin 1)])"
    by simp
  have 1: "fst (cfaOperator (VList [VStr ''a'']) (VList [VStr ''z'', VStr ''eq''])) = Inr (VBool False)"
    by (simp add: cfaOperator_def stringMatches_def matchesCondition_def)
  have 2: "fst (cfmOperator (VMaps [[(''k'', VStr ''a'')]]) (VList [VStr ''k'', VStr ''eq'', VStr ''z'']))
      = Inr (VBool False)"
    by (simp add: cfmOperator_def fieldMatches_def stringMatches_def matchesCondition_def)
  from 1 2
    C1_filter_operators_swap [where a = "VList [VStr ''a'']" and b = "VList [VStr ''z'', VStr ''eq'']"
      and i = 0 and s = "[]" and ss = "[]" and ms = "[]" and items = "[]" and t = "[]" and op = "[]"
      and f = "[]" and rest = "[]"]
    C1_filter_operators_swap [where a = "VMaps [[(''k'', VStr ''a'')]]"
      and b = "VList [VStr ''k'', VStr ''eq'', VStr ''z'']"
      and i = 0 and s = "[]" and ss = "[]" and ms = "[]" and items = "[]" and t = "[]" and op = "[]"
      and f = "[]" and rest = "[]"]
  have unchanged: "snd (cfaOperator (VList [VStr ''a'']) (VList [VStr ''z'', VStr ''eq''])) = VList [VStr ''a'']
     \<and> snd (cfmOperator (VMaps [[(''k'', VStr ''a'')]]) (VList [VStr ''k'', VStr ''eq'', VStr ''z'']))
       = VMaps [[(''k'', VStr ''a'')]]"
    by simp
  from swaps 1 2 unchanged show ?thesis by simp
qed

subsection \<open>C10: the filter operators never fail\<close>

text \<open>
  C10: \<open>cfa\<close> and \<open>cfm\<close> return a boolean and no error for all operands. They return
  \<open>(false, nil)\<close>, leaving the left operand as it is, when the right operand is not a
  generic list, when it has fewer than 2 (\<open>cfa\<close>) or 3 (\<open>cfm\<close>) elements, when one of
  these first elements is not a string, when the left operand is not one of the supported
  slice shapes, and when no element of the left operand matches. An operator name that
  \<open>matchesCondition\<close> does not list is treated as string equality.
\<close>

theorem C10_filter_operators_never_fail:
  "(\<exists>r. fst (cfaOperator a b) = Inr (VBool r))
   \<and> (\<exists>r. fst (cfmOperator a b) = Inr (VBool r))
   \<and> ((\<forall>xs. b \<noteq> VList xs) \<longrightarrow>
        cfaOperator a b = (Inr (VBool False), a) \<and> cfmOperator a b = (Inr (VBool False), a))
   \<and> (length bSlice < 2 \<longrightarrow> cfaOperator a (VList bSlice) = (Inr (VBool False), a))
   \<and> (length bSlice < 3 \<longrightarrow> cfmOperator a (VList bSlice) = (Inr (VBool False), a))
   \<and> (n < 2 \<and> n < length bSlice \<and> (\<forall>str. bSlice ! n \<noteq> VStr str) \<longrightarrow>
        cfaOperator a (VList bSlice) = (Inr (VBool False), a))
   \<and> (n < 3 \<and> n < length bSlice \<and> (\<forall>str. bSlice ! n \<noteq> VStr str) \<longrightarrow>
        cfmOperator a (VList bSlice) = (Inr (VBool False), a))
   \<and> ((\<forall>xs. a \<noteq> VList xs) \<and> (\<forall>xs. a \<noteq> VSlices xs) \<longrightarrow>
        cfaOperator a b = (Inr (VBool False), a))
   \<and> ((\<forall>xs. a \<noteq> VList xs) \<and> (\<forall>xs. a \<noteq> VMaps xs) \<longrightarrow>
        cfmOperator a b = (Inr (VBool False), a))
   \<and> (\<not> list_ex (stringMatches t op) s \<longrightarrow>
        cfaOperator (VList s) (VList (VStr t # VStr op # rest)) = (Inr (VBool False), VList s))
   \<and> (\<not> list_ex (list_ex (stringMatches t op)) ss \<longrightarrow>
        cfaOperator (VSlices ss) (VList (VStr t # VStr op # rest)) = (Inr (VBool False), VSlices ss))
   \<and> (\<not> list_ex (itemMatches f t op) s \<longrightarrow>
        cfmOperator (VList s) (VList (VStr f # VStr op # VStr t # rest)) = (Inr (VBool False), VList s))
   \<and> (\<not> list_ex (fieldMatches f t op) ms \<longrightarrow>
        cfmOperator (VMaps ms) (VList (VStr f # VStr op # VStr t # rest)) = (Inr (VBool False), VMaps ms))
   \<and> (operator \<notin> set [''equal'', ''eq'', ''=='', ''notequal'', ''ne'', ''!='', ''startswith'', ''sw'',
          ''endswith'', ''ew'', ''contains'', ''co''] \<longrightarrow>
        matchesCondition v t operator = (v = t))"
  using cfa_total [of a b] cfm_total [of a b] cfa_rhs_not_list [of b a] cfm_rhs_not_list [of b a]
    cfa_rhs_short [of bSlice a] cfm_rhs_short [of bSlice a]
    cfa_rhs_not_string [of n bSlice a] cfm_rhs_not_string [of n bSlice a]
    cfa_lhs_unsupported [of a b] cfm_lhs_unsupported [of a b]
    cfa_no_match_list [of t op s rest] cfa_no_match_slices [of t op ss rest]
    cfm_no_match_list [of f t op s rest] cfm_no_match_maps [of f t op ms rest]
    matchesCondition_default [of operator v t]
  by blast

text \<open>Each hypothesis of C10's theorem holds at a concrete operand pair.\<close>

theorem C10_filter_operators_never_fail_witness:
  "cfaOperator (VList [VStr ''a'']) (VNum (Fin 1)) = (Inr (VBool False), VList [VStr ''a''])
   \<and> cfmOperator (VList [VStr ''a'']) (VNum (Fin 1)) = (Inr (VBool False), VList [VStr ''a''])
   \<and> cfaOperator (VList [VStr ''a'']) (VList [VStr ''a'']) = (Inr (VBool False), VList [VStr ''a''])
   \<and> cfmOperator (VList [VStr ''a'']) (VList [VStr ''a'']) = (Inr (VBool False), VList [VStr ''a''])
   \<and> cfaOperator (VList [VStr ''a'']) (VList [VStr ''a'', VBool True, VStr ''a''])
        = (Inr (VBool False), VList [VStr ''a''])
   \<and> cfmOperator (VList [VStr ''a'']) (VList [VStr ''a'', VBool True, VStr ''a''])
        = (Inr (VBool False), VList [VStr ''a''])
   \<and> cfaOperator (VStr ''q'') (VList [VStr ''q'', VStr ''eq'']) = (Inr (VBool False), VStr ''q'')
   \<and> cfmOperator (VStr ''q'') (VList [VStr ''k'', VStr ''eq'', VStr ''q'']) = (Inr (VBool False), VStr ''q'')
   \<and> cfaOperator (VList [VStr ''a'']) (VList [VStr ''z'', VStr ''eq'']) = (Inr (VBool False), VList [VStr ''a''])
   \<and> cfaOperator (VSlices [[VStr ''a'']]) (VList [VStr ''z'', VStr ''eq''])
        = (Inr (VBool False), VSlices [[VStr ''a'']])
   \<and> cfmOperator (VList [VMap [(''k'', VStr ''a'')]]) (VList [VStr ''k'', VStr ''eq'', VStr ''z''])
        = (Inr (VBool False), VList [VMap [(''k'', VStr ''a'')]])
   \<and> cfmOperator (VMaps [[(''k'', VStr ''a'')]]) (VList [VStr ''k'', VStr ''eq'', VStr ''z''])
        = (Inr (VBool False), VMaps [[(''k'', VStr ''a'')]])
   \<and> matchesCondition ''a'' ''a'' ''neq''"
proof -
  note inst1 = C10_filter_operators_never_fail
    [where a = "VList [VStr ''a'']" and b = "VNum (Fin 1)" and bSlice = "[VStr ''a'']" and n = 0
       and t = "''z''" and op = "''eq''" and s = "[VStr ''a'']" and rest = "[]"
       and ss = "[[VStr ''a'']]" and f = "''k''" and ms = "[[(''k'', VStr ''a'')]]"
       and operator = "''neq''" and v = "''a''"]
  note inst2 = C10_filter_operators_never_fail
    [where a = "VList [VStr ''a'']" and bSlice = "[VStr ''a'', VBool True, VStr ''a'']" and n = 1
       and t = "''z''" and op = "''eq''" and s = "[VMap [(''k'', VStr ''a'')]]" and rest = "[]"
       and f = "''k''"]
  note inst3 = C10_filter_operators_never_fail
    [where a = "VStr ''q''" and b = "VList [VStr ''q'', VStr ''eq'']"]
  note inst4 = C10_filter_operators_never_fail
    [where a = "VStr ''q''" and b = "VList [VStr ''k'', VStr ''eq'', VStr ''q'']"]
  have h1: "\<forall>xs. VNum (Fin 1) \<noteq> VList xs" by simp
  have h2: "length [VStr ''a''] < 2" "length [VStr ''a''] < 3" by simp_all
  have h3: "(1::nat) < 2 \<and> 1 < length [VStr ''a'', VBool True, VStr ''a'']
      \<and> (\<forall>str. [VStr ''a'', VBool True, VStr ''a''] ! 1 \<noteq> VStr str)"
    "(1::nat) < 3 \<and> 1 < length [VStr ''a'', VBool True, VStr ''a'']
      \<and> (\<forall>str. [VStr ''a'', VBool True, VStr ''a''] ! 1 \<noteq> VStr str)" by simp_all
  have h4: "(\<forall>xs. VStr ''q'' \<noteq> VList xs) \<and> (\<forall>xs. VStr ''q'' \<noteq> VSlices xs)"
    "(\<forall>xs. VStr ''q'' \<noteq> VList xs) \<and> (\<forall>xs. VStr ''q'' \<noteq> VMaps xs)" by simp_all
  have h5: "\<not> list_ex (stringMatches ''z'' ''eq'') [VStr ''a'']"
    "\<not> list_ex (list_ex (stringMatches ''z'' ''eq'')) [[VStr ''a'']]"
    "\<not> list_ex (itemMatches ''k'' ''z'' ''eq'') [VMap [(''k'', VStr ''a'')]]"
    "\<not> list_ex (fieldMatches ''k'' ''z'' ''eq'') [[(''k'', VStr ''a'')]]"
    by (simp_all add: itemMatches_def fieldMatches_def stringMatches_def matchesCondition_def)
  have h6: "''neq'' \<notin> set [''equal'', ''eq'', ''=='', ''notequal'', ''ne'', ''!='', ''startswith'', ''sw'',
          ''endswith'', ''ew'', ''contains'', ''co'']" by simp
  from inst1 h1 h2 h5 h6 inst2 h3 inst3 inst4 h4 show ?thesis by simp
qed

section \<open>Evaluating the parser on concrete expressions\<close>

text \<open>The functions of \<open>parser l n\<close> for a bound \<open>n\<close> that is a numeral.\<close>

lemma parser_numeral:
  "parser l (numeral k) =
     \<lparr>pParseExpression = ParseExpression (parser l (pred_numeral k)),
      pParseExpressionLoop = ParseExpressionLoop (parser l (pred_numeral k)),
      pParseNextExpression = ParseNextExpression l (parser l (pred_numeral k)),
      pRunExtension = runExtension l (parser l (pred_numeral k)),
      pParseParentheses = parseParentheses (parser l (pred_numeral k)),
      pParseOperator = parseOperator l (parser l (pred_numeral k)),
      pParseIdentAlternative = parseIdentAlternative l (parser l (pred_numeral k)),
      pParseArguments = parseArguments (parser l (pred_numeral k)),
      pParseArgumentsLoop = parseArgumentsLoop (parser l (pred_numeral k)),
      pParseIf = parseIf (parser l (pred_numeral k)),
      pParseJSONArray = parseJSONArray (parser l (pred_numeral k))\<rparr>"
  by (simp add: numeral_eq_Suc)

lemma parser_sel_numeral:
  "pParseExpression (parser l (numeral k)) = ParseExpression (parser l (pred_numeral k))"
  "pParseExpressionLoop (parser l (numeral k)) = ParseExpressionLoop (parser l (pred_numeral k))"
  "pParseNextExpression (parser l (numeral k)) = ParseNextExpression l (parser l (pred_numeral k))"
  "pRunExtension (parser l (numeral k)) = runExtension l (parser l (pred_numeral k))"
  "pParseParentheses (parser l (numeral k)) = parseParentheses (parser l (pred_numeral k))"
  "pParseOperator (parser l (numeral k)) = parseOperator l (parser l (pred_numeral k))"
  "pParseIdentAlternative (parser l (numeral k)) = parseIdentAlternative l (parser l (pred_numeral k))"
  "pParseArguments (parser l (numeral k)) = parseArguments (parser l (pred_numeral k))"
  "pParseArgumentsLoop (parser l (numeral k)) = parseArgumentsLoop (parser l (pred_numeral k))"
  "pParseIf (parser l (numeral k)) = parseIf (parser l (pred_numeral k))"
  "pParseJSONArray (parser l (numeral k)) = parseJSONArray (parser l (pred_numeral k))"
  by (simp_all add: parser_numeral)

lemmas language_defs = NewLanguage_def merge_def newLanguage_def PrefixExtension_def
  PrefixMetaPrefix_def makePrefixKey_def PrefixOperator_def Constant_def InfixOperator_def
  InfixNumberOperator_def InfixBoolOperator_def InfixTextOperator_def InfixEvalOperator_def
  InfixShortCircuit_def PostfixOperator_def Precedence_def Function_def VariableSelector_def

lemmas gval_languages = full_def arithmetic_def bitmask_def ltext_def propositionalLogic_def
  ljson_def ternaryOperator_def base_def parentheses_def ident_def

text \<open>The tables of \<open>full\<close>; the entry that a lookup finds is the first one for its key.\<close>

lemma full_prefixes:
  "prefixes full =
     [(KName ''date'', ExtFunction date), (KToken (Sym CHR ''[''), ExtJSONArray),
      (KToken Ident, ExtIdent), (KToken (Sym CHR ''(''), ExtParentheses),
      (KName ''nil'', ExtConstant VNil), (KName ''false'', ExtConstant (VBool False)),
      (KName ''true'', ExtConstant (VBool True)),
      (KToken (Sym CHR ''-''), ExtPrefixOperator negative), (KToken FloatTok, ExtNumber),
      (KToken IntTok, ExtNumber), (KToken (Sym CHR ''!''), ExtPrefixOperator logicalNot),
      (KToken Ident, ExtIdent), (KToken (Sym CHR ''(''), ExtParentheses),
      (KName ''nil'', ExtConstant VNil), (KName ''false'', ExtConstant (VBool False)),
      (KName ''true'', ExtConstant (VBool True)),
      (KToken (Sym CHR ''-''), ExtPrefixOperator negative), (KToken FloatTok, ExtNumber),
      (KToken IntTok, ExtNumber), (KToken (Sym CHR ''~''), ExtPrefixOperator bitwiseNot),
      (KToken Ident, ExtIdent), (KToken (Sym CHR ''(''), ExtParentheses),
      (KName ''nil'', ExtConstant VNil), (KName ''false'', ExtConstant (VBool False)),
      (KName ''true'', ExtConstant (VBool True)),
      (KToken (Sym CHR ''-''), ExtPrefixOperator negative), (KToken FloatTok, ExtNumber),
      (KToken IntTok, ExtNumber)]"
  by (simp add: gval_languages language_defs)

lemma full_operators:
  "operators full =
     [(''?'', OpPostfix PostfixIf),
      (''cfm'', OpInfix (\<lambda>a b. fst (cfmOperator a b))),
      (''cfa'', OpInfix (\<lambda>a b. fst (cfaOperator a b))), (''??'', OpInfix coalesce),
      (''in'', OpInfix inArray), (''!='', OpInfix baseNotEqual),
      (''=='', OpInfix baseEqual),
      (''!='', OpInfix (boolOperator (\<lambda>a b. Inr (VBool (a = (\<not> b)))))),
      (''=='', OpInfix (boolOperator (\<lambda>a b. Inr (VBool (a = b))))),
      (''||'', OpInfix (boolOperator (\<lambda>a b. Inr (VBool (a \<or> b))))),
      (''&&'', OpInfix (boolOperator (\<lambda>a b. Inr (VBool (a \<and> b))))),
      (''!='', OpInfix baseNotEqual), (''=='', OpInfix baseEqual),
      (''!~'', OpDirectInfix notRegEx), (''=~'', OpDirectInfix regEx),
      (''mw'', OpInfix (textOperator matchOp)), (''ew'', OpInfix (textOperator endsWithOp)),
      (''co'', OpInfix (textOperator containsOp)),
      (''sw'', OpInfix (textOperator startsWithOp)),
      (''>='', OpInfix (textOperator (\<lambda>a b. Inr (VBool (\<not> stringLess a b))))),
      (''>'', OpInfix (textOperator (\<lambda>a b. Inr (VBool (stringLess b a))))),
      (''<='', OpInfix (textOperator (\<lambda>a b. Inr (VBool (\<not> stringLess b a))))),
      (''<'', OpInfix (textOperator (\<lambda>a b. Inr (VBool (stringLess a b))))),
      (''+'', OpInfix (textOperator (\<lambda>a b. Inr (VStr (a @ b))))),
      (''>>'', OpInfix (numberOperator (shift shiftRight))),
      (''<<'', OpInfix (numberOperator (shift shiftLeft))),
      (''|'', OpInfix (numberOperator (bitwise (OR)))),
      (''&'', OpInfix (numberOperator (bitwise (AND)))),
      (''^'', OpInfix (numberOperator (bitwise (XOR)))), (''!='', OpInfix baseNotEqual),
      (''=='', OpInfix baseEqual),
      (''!='', OpInfix (numberOperator (\<lambda>a b. Inr (VBool (\<not> feq a b))))),
      (''=='', OpInfix (numberOperator (\<lambda>a b. Inr (VBool (feq a b))))),
      (''<='', OpInfix (numberOperator (\<lambda>a b. Inr (VBool (fleq a b))))),
      (''<'', OpInfix (numberOperator (\<lambda>a b. Inr (VBool (fless a b))))),
      (''>='', OpInfix (numberOperator (\<lambda>a b. Inr (VBool (fleq b a))))),
      (''>'', OpInfix (numberOperator (\<lambda>a b. Inr (VBool (fless b a))))),
      (''**'', OpInfix (numberOperator (\<lambda>a b. Inr (VNum (math_Pow a b))))),
      (''%'', OpInfix (numberOperator (\<lambda>a b. Inr (VNum (math_Mod a b))))),
      (''/'', OpInfix (numberOperator (\<lambda>a b. Inr (VNum (fdiv a b))))),
      (''*'', OpInfix (numberOperator (\<lambda>a b. Inr (VNum (fmul a b))))),
      (''-'', OpInfix (numberOperator (\<lambda>a b. Inr (VNum (fsub a b))))),
      (''+'', OpInfix (numberOperator (\<lambda>a b. Inr (VNum (fadd a b)))))]"
  by (simp add: gval_languages language_defs)

lemma full_shortCircuits:
  "shortCircuits full =
     [(''??'', coalesceShortCircuit), (''||'', orShortCircuit), (''&&'', andShortCircuit)]"
  by (simp add: gval_languages language_defs)

lemma full_precedences:
  "precedences full =
     [(''**'', 200), (''%'', 150), (''/'', 150), (''*'', 150), (''-'', 120), (''+'', 120),
      (''>>'', 90), (''<<'', 90), (''|'', 60), (''&'', 60), (''^'', 60), (''cfm'', 40),
      (''cfa'', 40), (''mw'', 40), (''ew'', 40), (''co'', 40), (''sw'', 40), (''in'', 40),
      (''!~'', 40), (''=~'', 40), (''<='', 40), (''<'', 40), (''>='', 40), (''>'', 40),
      (''!='', 40), (''=='', 40), (''&&'', 21), (''||'', 20), (''??'', 0), (''**'', 200),
      (''%'', 150), (''/'', 150), (''*'', 150), (''-'', 120), (''+'', 120), (''>>'', 90),
      (''<<'', 90), (''|'', 60), (''&'', 60), (''^'', 60), (''cfm'', 40), (''cfa'', 40),
      (''mw'', 40), (''ew'', 40), (''co'', 40), (''sw'', 40), (''in'', 40), (''!~'', 40),
      (''=~'', 40), (''<='', 40), (''<'', 40), (''>='', 40), (''>'', 40), (''!='', 40),
      (''=='', 40), (''&&'', 21), (''||'', 20), (''??'', 0), (''**'', 200), (''%'', 150),
      (''/'', 150), (''*'', 150), (''-'', 120), (''+'', 120), (''>>'', 90), (''<<'', 90),
      (''|'', 60), (''&'', 60), (''^'', 60), (''cfm'', 40), (''cfa'', 40), (''mw'', 40),
      (''ew'', 40), (''co'', 40), (''sw'', 40), (''in'', 40), (''!~'', 40), (''=~'', 40),
      (''<='', 40), (''<'', 40), (''>='', 40), (''>'', 40), (''!='', 40), (''=='', 40),
      (''&&'', 21), (''||'', 20), (''??'', 0)]"
  by (simp add: gval_languages language_defs)

lemma full_rest:
  "selector full = None" "defaultExtension full = None" "initExtension full = None"
  by (simp_all add: gval_languages language_defs)

lemmas full_tables = full_prefixes full_operators full_shortCircuits full_precedences full_rest







lemmas parser_defs = ParseExpression_def ParseExpressionLoop_def ParseNextExpression_def
  runExtension_def parseParentheses_def parseOperator_def parseIdentAlternative_def
  parseArguments_def parseArgumentsLoop_def parseIf_def parseJSONArray_def parseNumber_def

lemmas scanner_defs = Scan_def scanToken_def Camouflage_def newParser_def isWhitespace_def
  isIdentRune_def isLetter_def isDigit_def

lemmas lookup_defs = isSymbolOperation_def isOperatorPrefix_def operatorNames_def precedenceOf_def
  infixBuilderOf_def

lemmas number_defs = ParseFloat_def ParseFloatUnsigned_def digitsValue_def digitValue_def

lemmas evaluable_defs = Const_def eagerInfix_def shortCircuitInfix_def numberOperator_def
  boolOperator_def textOperator_def convertToFloat_def convertToBool_def ifEvaluable_def arrayEvaluable_def
  prefixEvaluable_def IsZero_def andShortCircuit_def orShortCircuit_def inArray_def typeName_def

lemmas float64_defs = fadd_def fmul_def fdiv_def fsub_def fneg_def fless_def feq_def fleq_def
  math_Pow_def

lemmas evaluate_simps = Evaluate_def NewEvaluable_def parse_def parser_sel_numeral parser_defs
  scanner_defs lookup_defs number_defs evaluable_defs float64_defs


subsection \<open>Expressions of \<open>full\<close>\<close>




lemma full_and_false: "Evaluate full 30 ''false && (1/0 > 0)'' c v = Inr (VBool False)"
  by (simp add: evaluate_simps full_tables)

lemma full_or_true: "Evaluate full 30 ''true || (1/0 > 0)'' c v = Inr (VBool True)"
  by (simp add: evaluate_simps full_tables)

lemma full_ternary_1: "Evaluate full 30 ''1 ? 2 : 3'' c v = Inr (VNum (Fin 2))"
  by (simp add: evaluate_simps full_tables)

lemma full_ternary_0: "Evaluate full 30 ''0 ? 2 : 3'' c v = Inr (VNum (Fin 3))"
  by (simp add: evaluate_simps full_tables)

lemma full_ternary_1_no_else: "Evaluate full 30 ''1 ? 2'' c v = Inr (VNum (Fin 2))"
  by (simp add: evaluate_simps full_tables)

lemma full_ternary_0_no_else: "Evaluate full 30 ''0 ? 2'' c v = Inr VNil"
  by (simp add: evaluate_simps full_tables)

lemma full_ternary_in_parentheses: "Evaluate full 30 ''(0 ? 2)'' c v = Inl (Expected ''<> ? <> : <>'')"
  by (simp add: evaluate_simps full_tables)

lemma full_ternary_of_arrays: "Evaluate full 30 ''[] ? [] : []'' c v = Inr (VList [])"
  by (simp add: evaluate_simps full_tables)

lemma full_in_true: "Evaluate full 30 ''3 in [1,2,3]'' c v = Inr (VBool True)"
  by (simp add: evaluate_simps full_tables)

lemma full_in_false: "Evaluate full 30 ''4 in [1,2,3]'' c v = Inr (VBool False)"
  by (simp add: evaluate_simps full_tables)

lemma full_in_number: "Evaluate full 30 ''4 in 3'' c v = Inl (TypeError ''float64'')"
  by (simp add: evaluate_simps full_tables)

subsection \<open>Expressions of \<open>arithmetic\<close>\<close>





section \<open>Precedence, short circuits and the ternary operator\<close>

subsection \<open>C2: precedence\<close>











subsection \<open>C3: short circuits\<close>

text \<open>
  The result of a short-circuiting evaluator does not depend on its right operand \<open>b\<close>
  when the predicate decides: \<open>b\<close> is not evaluated, whatever it would return.
\<close>

lemma and_short: "a c v = Inr (VBool False) \<Longrightarrow> shortCircuitInfix andShortCircuit f a b c v = Inr (VBool False)"
  by (simp add: shortCircuitInfix_def andShortCircuit_def)

lemma or_short: "a c v = Inr (VBool True) \<Longrightarrow> shortCircuitInfix orShortCircuit f a b c v = Inr (VBool True)"
  by (simp add: shortCircuitInfix_def orShortCircuit_def)

lemma coalesce_left:
  "a c v = Inr x \<Longrightarrow> x \<noteq> VNil \<Longrightarrow> \<not> IsZero x \<Longrightarrow>
   shortCircuitInfix coalesceShortCircuit coalesce a b c v = Inr x"
  by (simp add: shortCircuitInfix_def coalesceShortCircuit_def)

lemma coalesce_right:
  "a c v = Inr x \<Longrightarrow> x = VNil \<or> IsZero x \<Longrightarrow>
   shortCircuitInfix coalesceShortCircuit coalesce a b c v = b c v"
  by (auto simp: shortCircuitInfix_def coalesceShortCircuit_def eagerInfix_def coalesce_def split: sum.splits)

lemma full_builders:
  "infixBuilderOf full ''&&'' f a b = Inr (shortCircuitInfix andShortCircuit f a b)"
  "infixBuilderOf full ''||'' f a b = Inr (shortCircuitInfix orShortCircuit f a b)"
  "infixBuilderOf full ''??'' f a b = Inr (shortCircuitInfix coalesceShortCircuit f a b)"
  "map_of (operators full) ''??'' = Some (OpInfix coalesce)"
  by (simp_all add: infixBuilderOf_def full_tables)

text \<open>
  C3: \<open>false && (1/0 > 0)\<close> evaluates to \<open>false\<close> and \<open>true || (1/0 > 0)\<close> to
  \<open>true\<close>. In \<open>full\<close> the operators \<open>&&\<close>, \<open>||\<close> and \<open>??\<close> are built with their
  short-circuit predicates. For every right operand \<open>b\<close>, also one that fails: \<open>&&\<close>
  returns \<open>false\<close> when the left operand is \<open>false\<close>, \<open>||\<close> returns \<open>true\<close> when the left
  operand is \<open>true\<close>, and \<open>??\<close> returns the left operand when that is neither \<open>nil\<close> nor
  the zero value of its type; otherwise \<open>??\<close> returns what the right operand returns.
\<close>

theorem C3_short_circuit:
  "Evaluate full 30 ''false && (1/0 > 0)'' c v = Inr (VBool False)
   \<and> Evaluate full 30 ''true || (1/0 > 0)'' c v = Inr (VBool True)
   \<and> infixBuilderOf full ''&&'' f a b = Inr (shortCircuitInfix andShortCircuit f a b)
   \<and> infixBuilderOf full ''||'' f a b = Inr (shortCircuitInfix orShortCircuit f a b)
   \<and> infixBuilderOf full ''??'' f a b = Inr (shortCircuitInfix coalesceShortCircuit f a b)
   \<and> map_of (operators full) ''??'' = Some (OpInfix coalesce)
   \<and> (a c v = Inr (VBool False) \<longrightarrow> shortCircuitInfix andShortCircuit f a b c v = Inr (VBool False))
   \<and> (a c v = Inr (VBool True) \<longrightarrow> shortCircuitInfix orShortCircuit f a b c v = Inr (VBool True))
   \<and> (a c v = Inr x \<and> x \<noteq> VNil \<and> \<not> IsZero x
        \<longrightarrow> shortCircuitInfix coalesceShortCircuit coalesce a b c v = Inr x)
   \<and> (a c v = Inr x \<and> (x = VNil \<or> IsZero x)
        \<longrightarrow> shortCircuitInfix coalesceShortCircuit coalesce a b c v = b c v)"
  using full_and_false [of c v] full_or_true [of c v] full_builders and_short [of a c v f b]
    or_short [of a c v f b] coalesce_left [of a c v x b] coalesce_right [of a c v x b]
  by blast

text \<open>
  The hypotheses of C3's theorem hold for constant left operands; the right operand of
  the first three evaluators would fail if it were evaluated.
\<close>

theorem C3_short_circuit_witness:
  "shortCircuitInfix andShortCircuit (boolOperator (\<lambda>a b. Inr (VBool (a \<and> b))))
       (Const (VBool False)) (\<lambda>c v. Inl (Panic ''right operand'')) (Context False) VNil = Inr (VBool False)
   \<and> shortCircuitInfix orShortCircuit (boolOperator (\<lambda>a b. Inr (VBool (a \<or> b))))
       (Const (VBool True)) (\<lambda>c v. Inl (Panic ''right operand'')) (Context False) VNil = Inr (VBool True)
   \<and> shortCircuitInfix coalesceShortCircuit coalesce
       (Const (VNum (Fin 7))) (\<lambda>c v. Inl (Panic ''right operand'')) (Context False) VNil = Inr (VNum (Fin 7))
   \<and> shortCircuitInfix coalesceShortCircuit coalesce
       (Const (VNum (Fin 0))) (Const (VStr ''right'')) (Context False) VNil = Inr (VStr ''right'')"
  using
    C3_short_circuit [where a = "Const (VBool False)" and b = "\<lambda>c v. Inl (Panic ''right operand'')"
      and c = "Context False" and v = VNil and f = "boolOperator (\<lambda>a b. Inr (VBool (a \<and> b)))"]
    C3_short_circuit [where a = "Const (VBool True)" and b = "\<lambda>c v. Inl (Panic ''right operand'')"
      and c = "Context False" and v = VNil and f = "boolOperator (\<lambda>a b. Inr (VBool (a \<or> b)))"]
    C3_short_circuit [where a = "Const (VNum (Fin 7))" and b = "\<lambda>c v. Inl (Panic ''right operand'')"
      and c = "Context False" and v = VNil and x = "VNum (Fin 7)"]
    C3_short_circuit [where a = "Const (VNum (Fin 0))" and b = "Const (VStr ''right'')"
      and c = "Context False" and v = VNil and x = "VNum (Fin 0)"]
  by (simp add: Const_def IsZero_def)


subsection \<open>C4: the ternary operator\<close>

text \<open>
  C4 states that the else branch defaults to a constant null whenever the \<open>?\<close> clause is
  not followed by \<open>:\<close>. \<open>parseIf\<close> does so at the end of the input only: in
  \<open>(0 ? 2)\<close> the clause is followed by \<open>)\<close>, and the expression does not compile.
\<close>

theorem C4_ternary_without_else_counterexample:
  "Evaluate full 30 ''(0 ? 2)'' (Context False) VNil = Inl (Expected ''<> ? <> : <>'')
   \<and> Evaluate full 30 ''(0 ? 2)'' (Context False) VNil \<noteq> Inr VNil"
  by (simp add: full_ternary_in_parentheses)

text \<open>The evaluator of \<open>parseIf\<close>, and the three cases of the token after the then-branch.\<close>

lemma ifEvaluable_selects:
  "e c v = Inr x \<Longrightarrow> ifEvaluable e a b c v = (if x = VNil \<or> IsZero x then b c v else a c v)"
  by (simp add: ifEvaluable_def)

lemma ifEvaluable_error: "e c v = Inl err \<Longrightarrow> ifEvaluable e a b c v = Inl err"
  by (simp add: ifEvaluable_def)

lemma parseIf_else:
  "pParseExpression p s = Inr (a, s1) \<Longrightarrow> Scan s1 = (Sym CHR '':'', s2) \<Longrightarrow>
   pParseExpression p s2 = Inr (b, s3) \<Longrightarrow> parseIf p e s = Inr (ifEvaluable e a b, s3)"
  by (simp add: parseIf_def)

lemma parseIf_end:
  "pParseExpression p s = Inr (a, s1) \<Longrightarrow> Scan s1 = (EOF, s2) \<Longrightarrow>
   parseIf p e s = Inr (ifEvaluable e a (Const VNil), s2)"
  by (simp add: parseIf_def)

lemma parseIf_other:
  "pParseExpression p s = Inr (a, s1) \<Longrightarrow> Scan s1 = (scan, s2) \<Longrightarrow> scan \<noteq> Sym CHR '':'' \<Longrightarrow>
   scan \<noteq> EOF \<Longrightarrow> parseIf p e s = Inl (Expected ''<> ? <> : <>'')"
  by (simp add: parseIf_def)

text \<open>
  C4, as the code has it: the ternary evaluator returns the error of its condition, or
  else what the selected branch returns, and the other branch is not evaluated; it selects
  the else branch exactly when the condition is \<open>nil\<close> or the zero value of its type.
  \<open>1 ? 2 : 3\<close> evaluates to 2, \<open>0 ? 2 : 3\<close> to 3, \<open>1 ? 2\<close> to 2 and \<open>0 ? 2\<close> to
  null. After the then-branch \<open>parseIf\<close> parses an else branch if \<open>:\<close> follows, takes
  the constant null as else branch if the input ends, and fails on every other token.
\<close>

theorem C4_ternary:
  "(e c v = Inr x \<longrightarrow> ifEvaluable e a b c v = (if x = VNil \<or> IsZero x then b c v else a c v))
   \<and> (e c v = Inl err \<longrightarrow> ifEvaluable e a b c v = Inl err)
   \<and> Evaluate full 30 ''1 ? 2 : 3'' c v = Inr (VNum (Fin 2))
   \<and> Evaluate full 30 ''0 ? 2 : 3'' c v = Inr (VNum (Fin 3))
   \<and> Evaluate full 30 ''1 ? 2'' c v = Inr (VNum (Fin 2))
   \<and> Evaluate full 30 ''0 ? 2'' c v = Inr VNil
   \<and> (pParseExpression p s = Inr (a, s1) \<and> Scan s1 = (Sym CHR '':'', s2) \<and> pParseExpression p s2 = Inr (b, s3)
        \<longrightarrow> parseIf p e s = Inr (ifEvaluable e a b, s3))
   \<and> (pParseExpression p s = Inr (a, s1) \<and> Scan s1 = (EOF, s2)
        \<longrightarrow> parseIf p e s = Inr (ifEvaluable e a (Const VNil), s2))
   \<and> (pParseExpression p s = Inr (a, s1) \<and> Scan s1 = (scan, s2) \<and> scan \<noteq> Sym CHR '':'' \<and> scan \<noteq> EOF
        \<longrightarrow> parseIf p e s = Inl (Expected ''<> ? <> : <>''))"
  using ifEvaluable_selects [of e c v x a b] ifEvaluable_error [of e c v err a b]
    full_ternary_1 [of c v] full_ternary_0 [of c v] full_ternary_1_no_else [of c v]
    full_ternary_0_no_else [of c v] parseIf_else [of p s a s1 s2 b s3 e] parseIf_end [of p s a s1 s2 e]
    parseIf_other [of p s a s1 scan s2 e]
  by blast

text \<open>
  The hypotheses of C4's theorem hold for constant conditions (the branch that is not
  selected would fail) and for the parser of \<open>full\<close> on the texts \<open>2 : 3\<close>, \<open>2\<close> and \<open>2)\<close>.
\<close>

theorem C4_ternary_witness:
  "ifEvaluable (Const (VNum (Fin 0))) (\<lambda>c v. Inl (Panic ''then'')) (Const (VNum (Fin 3))) (Context False) VNil
     = Inr (VNum (Fin 3))
   \<and> ifEvaluable (Const (VNum (Fin 1))) (Const (VNum (Fin 2))) (\<lambda>c v. Inl (Panic ''else'')) (Context False) VNil
     = Inr (VNum (Fin 2))
   \<and> ifEvaluable (\<lambda>c v. Inl (Panic ''condition'')) (Const VNil) (Const VNil) (Context False) VNil
     = Inl (Panic ''condition'')
   \<and> (\<exists>s3. parseIf (parser full 29) (Const (VNum (Fin 1))) (newParser ''2 : 3'')
        = Inr (ifEvaluable (Const (VNum (Fin 1))) (Const (VNum (Fin 2))) (Const (VNum (Fin 3))), s3))
   \<and> (\<exists>s2. parseIf (parser full 29) (Const (VNum (Fin 1))) (newParser ''2'')
        = Inr (ifEvaluable (Const (VNum (Fin 1))) (Const (VNum (Fin 2))) (Const VNil), s2))
   \<and> parseIf (parser full 29) (Const (VNum (Fin 1))) (newParser ''2)'') = Inl (Expected ''<> ? <> : <>'')"
proof -
  let ?one = "Const (VNum (Fin 1))"
  have p2: "pParseExpression (parser full 29) (newParser ''2 : 3'')
      = Inr (Const (VNum (Fin 2)), \<lparr>input = '' 3'', lastScan = Sym CHR '':'', tokenText = '':'', camouflaged = True\<rparr>)"
    by (simp add: evaluate_simps full_tables)
  have sc2: "Scan \<lparr>input = '' 3'', lastScan = Sym CHR '':'', tokenText = '':'', camouflaged = True\<rparr>
      = (Sym CHR '':'', \<lparr>input = '' 3'', lastScan = Sym CHR '':'', tokenText = '':'', camouflaged = False\<rparr>)"
    by (simp add: scanner_defs)
  have p3: "pParseExpression (parser full 29) \<lparr>input = '' 3'', lastScan = Sym CHR '':'', tokenText = '':'', camouflaged = False\<rparr>
      = Inr (Const (VNum (Fin 3)), \<lparr>input = [], lastScan = EOF, tokenText = [], camouflaged = True\<rparr>)"
    by (simp add: evaluate_simps full_tables)
  have q2: "pParseExpression (parser full 29) (newParser ''2'')
      = Inr (Const (VNum (Fin 2)), \<lparr>input = [], lastScan = EOF, tokenText = [], camouflaged = True\<rparr>)"
    by (simp add: evaluate_simps full_tables)
  have sq2: "Scan \<lparr>input = [], lastScan = EOF, tokenText = [], camouflaged = True\<rparr>
      = (EOF, \<lparr>input = [], lastScan = EOF, tokenText = [], camouflaged = False\<rparr>)"
    by (simp add: scanner_defs)
  have r2: "pParseExpression (parser full 29) (newParser ''2)'')
      = Inr (Const (VNum (Fin 2)), \<lparr>input = [], lastScan = Sym CHR '')'', tokenText = '')'', camouflaged = True\<rparr>)"
    by (simp add: evaluate_simps full_tables)
  have sr2: "Scan \<lparr>input = [], lastScan = Sym CHR '')'', tokenText = '')'', camouflaged = True\<rparr>
      = (Sym CHR '')'', \<lparr>input = [], lastScan = Sym CHR '')'', tokenText = '')'', camouflaged = False\<rparr>)"
    by (simp add: scanner_defs)
  have ne: "Sym CHR '')'' \<noteq> Sym CHR '':''" "Sym CHR '')'' \<noteq> EOF" by simp_all
  have c0: "Const (VNum (Fin 0)) (Context False) VNil = Inr (VNum (Fin 0))"
    and c1: "Const (VNum (Fin 1)) (Context False) VNil = Inr (VNum (Fin 1))"
    by (simp_all add: Const_def)
  from C4_ternary [where e = "Const (VNum (Fin 0))" and c = "Context False" and v = VNil
      and x = "VNum (Fin 0)" and a = "\<lambda>c v. Inl (Panic ''then'')" and b = "Const (VNum (Fin 3))"] c0
  have w1: "ifEvaluable (Const (VNum (Fin 0))) (\<lambda>c v. Inl (Panic ''then'')) (Const (VNum (Fin 3))) (Context False) VNil
     = Inr (VNum (Fin 3))"
    by (simp add: IsZero_def Const_def)
  from C4_ternary [where e = "Const (VNum (Fin 1))" and c = "Context False" and v = VNil
      and x = "VNum (Fin 1)" and b = "\<lambda>c v. Inl (Panic ''else'')" and a = "Const (VNum (Fin 2))"] c1
  have w2: "ifEvaluable (Const (VNum (Fin 1))) (Const (VNum (Fin 2))) (\<lambda>c v. Inl (Panic ''else'')) (Context False) VNil
     = Inr (VNum (Fin 2))"
    by (simp add: IsZero_def Const_def)
  from C4_ternary [where e = "\<lambda>c v. Inl (Panic ''condition'')" and c = "Context False" and v = VNil
      and err = "Panic ''condition''" and a = "Const VNil" and b = "Const VNil"]
  have w3: "ifEvaluable (\<lambda>c v. Inl (Panic ''condition'')) (Const VNil) (Const VNil) (Context False) VNil
     = Inl (Panic ''condition'')"
    by simp
  from C4_ternary [where p = "parser full 29" and s = "newParser ''2 : 3''" and e = ?one
      and a = "Const (VNum (Fin 2))" and b = "Const (VNum (Fin 3))"
      and ?s1.0 = "\<lparr>input = '' 3'', lastScan = Sym CHR '':'', tokenText = '':'', camouflaged = True\<rparr>"
      and ?s2.0 = "\<lparr>input = '' 3'', lastScan = Sym CHR '':'', tokenText = '':'', camouflaged = False\<rparr>"
      and ?s3.0 = "\<lparr>input = [], lastScan = EOF, tokenText = [], camouflaged = True\<rparr>"] p2 sc2 p3
  have w4: "\<exists>s3. parseIf (parser full 29) ?one (newParser ''2 : 3'')
        = Inr (ifEvaluable ?one (Const (VNum (Fin 2))) (Const (VNum (Fin 3))), s3)"
    by blast
  from C4_ternary [where p = "parser full 29" and s = "newParser ''2''" and e = ?one
      and a = "Const (VNum (Fin 2))"
      and ?s1.0 = "\<lparr>input = [], lastScan = EOF, tokenText = [], camouflaged = True\<rparr>"
      and ?s2.0 = "\<lparr>input = [], lastScan = EOF, tokenText = [], camouflaged = False\<rparr>"] q2 sq2
  have w5: "\<exists>s2. parseIf (parser full 29) ?one (newParser ''2'')
        = Inr (ifEvaluable ?one (Const (VNum (Fin 2))) (Const VNil), s2)"
    by blast
  from C4_ternary [where p = "parser full 29" and s = "newParser ''2)''" and e = ?one
      and a = "Const (VNum (Fin 2))" and scan = "Sym CHR '')''"
      and ?s1.0 = "\<lparr>input = [], lastScan = Sym CHR '')'', tokenText = '')'', camouflaged = True\<rparr>"
      and ?s2.0 = "\<lparr>input = [], lastScan = Sym CHR '')'', tokenText = '')'', camouflaged = False\<rparr>"] r2 sr2 ne
  have w6: "parseIf (parser full 29) ?one (newParser ''2)'') = Inl (Expected ''<> ? <> : <>'')"
    by blast
  from w1 w2 w3 w4 w5 w6 show ?thesis by blast
qed


section \<open>Cancellation\<close>

subsection \<open>C5: an already-cancelled handle\<close>

text \<open>The expression \<open>[] ? [] : []\<close> compiles to evaluators of parse.go alone.\<close>

lemma full_compiles_ternary_of_arrays:
  "NewEvaluable full 30 ''[] ? [] : []''
     = Inr (ifEvaluable (arrayEvaluable []) (arrayEvaluable []) (arrayEvaluable []))"
  by (simp add: NewEvaluable_def parse_def parser_sel_numeral parser_defs scanner_defs lookup_defs
      full_tables)

lemma arrayEvaluable_empty: "arrayEvaluable [] c v = Inr (VList [])"
  by (simp add: arrayEvaluable_def)

lemma ifEvaluable_of_arrays:
  "ifEvaluable (arrayEvaluable []) (arrayEvaluable []) (arrayEvaluable []) c v = Inr (VList [])"
  by (simp add: ifEvaluable_def arrayEvaluable_def IsZero_def)

text \<open>
  C5 states that every compiled expression returns a cancellation error when it is invoked
  with an already-cancelled handle. The evaluators that \<open>parseIf\<close> and
  \<open>parseJSONArray\<close> build do not look at the handle: \<open>[] ? [] : []\<close> compiles to
  these evaluators alone, and with a cancelled handle it evaluates to the empty list.
\<close>

theorem C5_cancelled_handle_counterexample:
  "ifEvaluable (arrayEvaluable []) (arrayEvaluable []) (arrayEvaluable []) (Context True) VNil
     = Inr (VList [])
   \<and> ifEvaluable (arrayEvaluable []) (arrayEvaluable []) (arrayEvaluable []) (Context True) VNil
     \<noteq> Inl Cancelled
   \<and> NewEvaluable full 30 ''[] ? [] : []''
     = Inr (ifEvaluable (arrayEvaluable []) (arrayEvaluable []) (arrayEvaluable []))
   \<and> Evaluate full 30 ''[] ? [] : []'' (Context True) VNil = Inr (VList [])"
  by (simp add: full_compiles_ternary_of_arrays ifEvaluable_of_arrays full_ternary_of_arrays)

text \<open>An evaluator whose sub-evaluators ignore the handle ignores it too.\<close>

lemma evalElements_context:
  "(\<forall>e\<in>set evals. \<forall>c c' v. e c v = e c' v) \<Longrightarrow> evalElements evals c v = evalElements evals c' v"
proof (induction evals)
  case Nil
  show ?case by simp
next
  case (Cons e evals)
  then have "e c v = e c' v" and "evalElements evals c v = evalElements evals c' v" by auto
  then show ?case by (simp split: sum.splits)
qed

lemma ifEvaluable_context:
  "\<forall>c c' v. e c v = e c' v \<Longrightarrow> \<forall>c c' v. a c v = a c' v \<Longrightarrow> \<forall>c c' v. b c v = b c' v \<Longrightarrow>
   ifEvaluable e a b c v = ifEvaluable e a b c' v"
proof -
  assume e: "\<forall>c c' v. e c v = e c' v" and a: "\<forall>c c' v. a c v = a c' v" and b: "\<forall>c c' v. b c v = b c' v"
  from e have "e c v = e c' v" by blast
  moreover from a have "a c v = a c' v" by blast
  moreover from b have "b c v = b c' v" by blast
  ultimately show ?thesis by (simp add: ifEvaluable_def split: sum.splits)
qed

lemma arrayEvaluable_context:
  "(\<forall>e\<in>set evals. \<forall>c c' v. e c v = e c' v) \<Longrightarrow> arrayEvaluable evals c v = arrayEvaluable evals c' v"
  using evalElements_context [of evals c v c'] by (simp add: arrayEvaluable_def)

text \<open>An error that such an evaluator returns is the error of a sub-evaluator.\<close>

lemma ifEvaluable_error_source:
  "ifEvaluable e a b c v = Inl err \<Longrightarrow> e c v = Inl err \<or> a c v = Inl err \<or> b c v = Inl err"
  by (auto simp: ifEvaluable_def split: sum.splits if_splits)

lemma evalElements_error_source:
  "evalElements evals c v = Inl err \<Longrightarrow> \<exists>x\<in>set evals. x c v = Inl err"
  by (induction evals) (auto split: sum.splits)

lemma arrayEvaluable_error_source:
  "arrayEvaluable evals c v = Inl err \<Longrightarrow> \<exists>x\<in>set evals. x c v = Inl err"
  using evalElements_error_source [of evals c v err]
  by (auto simp: arrayEvaluable_def split: sum.splits)

text \<open>The error of the condition and the first error among the elements are returned.\<close>

lemma ifEvaluable_condition_error: "e c v = Inl err \<Longrightarrow> ifEvaluable e a b c v = Inl err"
  by (simp add: ifEvaluable_def)

lemma evalElements_first_error:
  "\<forall>y\<in>set pre. \<exists>r. y c v = Inr r \<Longrightarrow> x c v = Inl err \<Longrightarrow> evalElements (pre @ x # post) c v = Inl err"
  by (induction pre) auto

lemma arrayEvaluable_first_error:
  "\<forall>y\<in>set pre. \<exists>r. y c v = Inr r \<Longrightarrow> x c v = Inl err \<Longrightarrow> arrayEvaluable (pre @ x # post) c v = Inl err"
  by (simp add: arrayEvaluable_def evalElements_first_error)

text \<open>
  C5, as the code has it: the evaluators that \<open>parseIf\<close> and \<open>parseJSONArray\<close> build
  never check the cancellation handle themselves, they pass it on to their sub-evaluators.
  Such an evaluator returns a cancellation error only when one of its sub-evaluators
  returns it under the same handle; it returns the error of its condition, and the first
  error among its elements, as it is; and when its sub-evaluators return the same under
  every handle, it returns under a cancelled handle what it returns under a live one.
  The empty array literal evaluates to the empty list under a cancelled handle, and so
  does \<open>[] ? [] : []\<close>, which compiles to these evaluators alone.
\<close>

theorem C5_handle_passed_on:
  "(ifEvaluable e a b c v = Inl Cancelled
      \<longrightarrow> e c v = Inl Cancelled \<or> a c v = Inl Cancelled \<or> b c v = Inl Cancelled)
   \<and> (arrayEvaluable evals c v = Inl Cancelled \<longrightarrow> (\<exists>x\<in>set evals. x c v = Inl Cancelled))
   \<and> (e c v = Inl err \<longrightarrow> ifEvaluable e a b c v = Inl err)
   \<and> ((\<forall>y\<in>set pre. \<exists>r. y c v = Inr r) \<and> x c v = Inl err
      \<longrightarrow> arrayEvaluable (pre @ x # post) c v = Inl err)
   \<and> ((\<forall>c c' v. e c v = e c' v) \<and> (\<forall>c c' v. a c v = a c' v) \<and> (\<forall>c c' v. b c v = b c' v)
      \<longrightarrow> ifEvaluable e a b (Context True) v = ifEvaluable e a b (Context False) v)
   \<and> ((\<forall>e\<in>set evals. \<forall>c c' v. e c v = e c' v)
      \<longrightarrow> arrayEvaluable evals (Context True) v = arrayEvaluable evals (Context False) v)
   \<and> arrayEvaluable [] (Context True) v = Inr (VList [])
   \<and> NewEvaluable full 30 ''[] ? [] : []''
     = Inr (ifEvaluable (arrayEvaluable []) (arrayEvaluable []) (arrayEvaluable []))
   \<and> Evaluate full 30 ''[] ? [] : []'' (Context True) v = Inr (VList [])"
  using ifEvaluable_error_source [of e a b c v Cancelled]
    arrayEvaluable_error_source [of evals c v Cancelled]
    ifEvaluable_condition_error [of e c v err a b]
    arrayEvaluable_first_error [of pre c v x err post]
    ifEvaluable_context [of e a b "Context True" v "Context False"]
    arrayEvaluable_context [of evals "Context True" v "Context False"]
    arrayEvaluable_empty [of "Context True" v] full_compiles_ternary_of_arrays
    full_ternary_of_arrays [of "Context True" v]
  by blast

text \<open>
  The hypotheses of C5's theorem hold: for a sub-evaluator that checks the handle, as
  condition and as second element, under a cancelled handle; and for sub-evaluators that
  are array literals, which return the same under every handle.
\<close>

theorem C5_handle_passed_on_witness:
  "ifEvaluable (\<lambda>c v. if cancelled c then Inl Cancelled else Inr (VBool True))
       (arrayEvaluable []) (arrayEvaluable []) (Context True) VNil = Inl Cancelled
   \<and> arrayEvaluable [arrayEvaluable [], \<lambda>c v. if cancelled c then Inl Cancelled else Inr (VBool True)]
       (Context True) VNil = Inl Cancelled
   \<and> ifEvaluable (arrayEvaluable []) (arrayEvaluable [arrayEvaluable []]) (arrayEvaluable []) (Context True) VNil
     = ifEvaluable (arrayEvaluable []) (arrayEvaluable [arrayEvaluable []]) (arrayEvaluable []) (Context False) VNil
   \<and> arrayEvaluable [arrayEvaluable [], arrayEvaluable []] (Context True) VNil
     = arrayEvaluable [arrayEvaluable [], arrayEvaluable []] (Context False) VNil
   \<and> arrayEvaluable [arrayEvaluable [], arrayEvaluable []] (Context True) VNil
     = Inr (VList [VList [], VList []])"
proof -
  let ?check = "\<lambda>(c::Context) (v::val). if cancelled c then Inl Cancelled else (Inr (VBool True) :: result)"
  let ?nil = "arrayEvaluable []"
  have c1: "?check (Context True) VNil = Inl Cancelled" by simp
  have c2: "\<forall>y\<in>set [?nil]. \<exists>r. y (Context True) VNil = Inr r" by (simp add: arrayEvaluable_def)
  have h: "\<forall>c c' v. ?nil c v = ?nil c' v" "\<forall>c c' v. arrayEvaluable [?nil] c v = arrayEvaluable [?nil] c' v"
    by (simp_all add: arrayEvaluable_def)
  then have hs: "\<forall>e\<in>set [?nil, ?nil]. \<forall>c c' v. e c v = e c' v" by simp
  have r: "arrayEvaluable [?nil, ?nil] (Context False) VNil = Inr (VList [VList [], VList []])"
    by (simp add: arrayEvaluable_def)
  from c1 c2
    C5_handle_passed_on [where e = ?check and a = ?nil and b = ?nil and c = "Context True" and v = VNil
      and err = Cancelled and pre = "[?nil]" and x = ?check and post = "[]"
      and evals = "[?nil, ?check]"]
  have w1: "ifEvaluable ?check ?nil ?nil (Context True) VNil = Inl Cancelled"
    and w2: "arrayEvaluable [?nil, ?check] (Context True) VNil = Inl Cancelled"
    by simp_all
  from h hs r
    C5_handle_passed_on [where e = ?nil and a = "arrayEvaluable [?nil]" and b = ?nil and v = VNil
      and evals = "[?nil, ?nil]" and c = "Context True" and err = Cancelled and pre = "[]"
      and x = ?check and post = "[]"]
  have w3: "ifEvaluable ?nil (arrayEvaluable [?nil]) ?nil (Context True) VNil
     = ifEvaluable ?nil (arrayEvaluable [?nil]) ?nil (Context False) VNil"
    and w4: "arrayEvaluable [?nil, ?nil] (Context True) VNil = arrayEvaluable [?nil, ?nil] (Context False) VNil"
    by simp_all
  from w1 w2 w3 w4 r show ?thesis by simp
qed


section \<open>Composition of languages\<close>

subsection \<open>C6: a right-biased merge\<close>










section \<open>Selector resolution\<close>

subsection \<open>C7: key paths\<close>

text \<open>
  \<open>Full\<close> extended by \<open>WithMissingFieldBehavior\<close> has the tables of \<open>full\<close> and the
  selector of the behaviour. The input of the examples is \<open>{"a": {"b": [10, 20]}}\<close>.
\<close>

lemma Full_selector_tables:
  "prefixes (Full [WithMissingFieldBehavior behavior]) = prefixes full"
  "operators (Full [WithMissingFieldBehavior behavior]) = operators full"
  "shortCircuits (Full [WithMissingFieldBehavior behavior]) = shortCircuits full"
  "precedences (Full [WithMissingFieldBehavior behavior]) = precedences full"
  "selector (Full [WithMissingFieldBehavior behavior]) = Some (missingFieldSelector behavior)"
  "defaultExtension (Full [WithMissingFieldBehavior behavior]) = None"
  "initExtension (Full [WithMissingFieldBehavior behavior]) = None"
  by (simp_all add: Full_def WithMissingFieldBehavior_def language_defs full_rest)

lemmas selector_defs = Var_def missingFieldSelector_def EvalString_def toText_def Atoi_def
  handleMissingField_def showNat.simps

lemma selector_in_bounds:
  "Evaluate (Full [WithMissingFieldBehavior behavior]) 30 ''a.b[1]'' c
     (VMap [(''a'', VMap [(''b'', VList [VNum (Fin 10), VNum (Fin 20)])])]) = Inr (VNum (Fin 20))"
  by (simp add: evaluate_simps Full_selector_tables full_tables selector_defs)

lemma selector_out_of_bounds:
  "Evaluate (Full [WithMissingFieldBehavior behavior]) 30 ''a.b[5]'' c
     (VMap [(''a'', VMap [(''b'', VList [VNum (Fin 10), VNum (Fin 20)])])])
   = handleMissingField behavior [''a'', ''b'', ''5'']"
  by (simp add: evaluate_simps Full_selector_tables full_tables Var_def missingFieldSelector_def
      EvalString_def toText_def Atoi_def showNat.simps)

lemma base_policy:
  "Evaluate full 30 ''a.b[1]'' c
     (VMap [(''a'', VMap [(''b'', VList [VNum (Fin 10), VNum (Fin 20)])])]) = Inr (VNum (Fin 20))"
  "Evaluate full 30 ''a.b[5]'' c
     (VMap [(''a'', VMap [(''b'', VList [VNum (Fin 10), VNum (Fin 20)])])]) = Inl (UnknownParameter ''a.b.5'')"
  by (simp_all add: evaluate_simps full_tables selector_defs)

lemma selectKeys_non_integer:
  "selectKeys behavior [] [''a'', ''b'', ''x'']
     (VMap [(''a'', VMap [(''b'', VList [VNum (Fin 10), VNum (Fin 20)])])])
   = handleMissingField behavior [''a'', ''b'', ''x'']"
  by (simp add: Atoi_def isDigit_def)

lemma selectKeys_list_strict:
  "selectKeys ErrorOnMissingField seen [k] (VList xs) = Inr x \<longleftrightarrow>
     (\<exists>idx. Atoi k = Some idx \<and> 0 \<le> idx \<and> idx < int (length xs) \<and> x = xs ! nat idx)"
  by (auto simp: handleMissingField_def split: option.splits)

lemma selectKeys_list_missing:
  "(\<forall>idx. Atoi k = Some idx \<longrightarrow> idx < 0 \<or> int (length xs) \<le> idx) \<Longrightarrow>
   selectKeys behavior seen (k # keys) (VList xs) = handleMissingField behavior (seen @ [k])"
  by (auto split: option.splits)

lemma selectKeys_list_found:
  "Atoi k = Some idx \<Longrightarrow> 0 \<le> idx \<Longrightarrow> idx < int (length xs) \<Longrightarrow>
   selectKeys behavior seen (k # keys) (VList xs) = selectKeys behavior (seen @ [k]) keys (xs ! nat idx)"
  by simp

lemma selectKeys_map_found:
  "map_of m k = Some x \<Longrightarrow>
   selectKeys behavior seen (k # keys) (VMap m) = selectKeys behavior (seen @ [k]) keys x"
  by simp

lemma selectKeys_map_missing:
  "map_of m k = None \<Longrightarrow>
   selectKeys behavior seen (k # keys) (VMap m) = handleMissingField behavior (seen @ [k])"
  by simp

lemma handleMissingField_cases:
  "handleMissingField ErrorOnMissingField keyPath = Inl (UnknownParameter (Join keyPath ''.''))"
  "handleMissingField FalseOnMissingField keyPath = Inr (VBool False)"
  "handleMissingField NilOnMissingField keyPath = Inr VNil"
  by (simp_all add: handleMissingField_def)

text \<open>
  C7: for the input \<open>{"a": {"b": [10, 20]}}\<close> the path \<open>a.b[1]\<close> evaluates to 20 under
  every policy. \<open>a.b[5]\<close> fails under the strict policy with the error that names the
  path \<open>a.b.5\<close>, and evaluates to \<open>false\<close> or \<open>nil\<close> under the two permissive policies;
  the base policy of \<open>full\<close> is the strict one. A key that is not an integer fails in
  the same way (\<open>a.b.x\<close>). The keys are resolved from left to right: a key that a map
  holds or that indexes a list selects the value for the rest of the path, and any other
  key ends the resolution with the policy applied to the path so far. Under the strict
  policy a list is indexed with success exactly by a key that parses as an integer that is
  not negative and less than the length of the list.
\<close>

theorem C7_selector_resolution:
  "Evaluate (Full [WithMissingFieldBehavior behavior]) 30 ''a.b[1]'' c
     (VMap [(''a'', VMap [(''b'', VList [VNum (Fin 10), VNum (Fin 20)])])]) = Inr (VNum (Fin 20))
   \<and> Evaluate (Full [WithMissingFieldBehavior ErrorOnMissingField]) 30 ''a.b[5]'' c
     (VMap [(''a'', VMap [(''b'', VList [VNum (Fin 10), VNum (Fin 20)])])]) = Inl (UnknownParameter ''a.b.5'')
   \<and> Evaluate (Full [WithMissingFieldBehavior FalseOnMissingField]) 30 ''a.b[5]'' c
     (VMap [(''a'', VMap [(''b'', VList [VNum (Fin 10), VNum (Fin 20)])])]) = Inr (VBool False)
   \<and> Evaluate (Full [WithMissingFieldBehavior NilOnMissingField]) 30 ''a.b[5]'' c
     (VMap [(''a'', VMap [(''b'', VList [VNum (Fin 10), VNum (Fin 20)])])]) = Inr VNil
   \<and> Evaluate full 30 ''a.b[1]'' c
     (VMap [(''a'', VMap [(''b'', VList [VNum (Fin 10), VNum (Fin 20)])])]) = Inr (VNum (Fin 20))
   \<and> Evaluate full 30 ''a.b[5]'' c
     (VMap [(''a'', VMap [(''b'', VList [VNum (Fin 10), VNum (Fin 20)])])]) = Inl (UnknownParameter ''a.b.5'')
   \<and> selectKeys ErrorOnMissingField [] [''a'', ''b'', ''x'']
     (VMap [(''a'', VMap [(''b'', VList [VNum (Fin 10), VNum (Fin 20)])])]) = Inl (UnknownParameter ''a.b.x'')
   \<and> (selectKeys ErrorOnMissingField seen [k] (VList xs) = Inr x \<longleftrightarrow>
        (\<exists>idx. Atoi k = Some idx \<and> 0 \<le> idx \<and> idx < int (length xs) \<and> x = xs ! nat idx))
   \<and> (Atoi k = Some idx \<and> 0 \<le> idx \<and> idx < int (length xs) \<longrightarrow>
        selectKeys behavior seen (k # keys) (VList xs) = selectKeys behavior (seen @ [k]) keys (xs ! nat idx))
   \<and> ((\<forall>idx. Atoi k = Some idx \<longrightarrow> idx < 0 \<or> int (length xs) \<le> idx) \<longrightarrow>
        selectKeys behavior seen (k # keys) (VList xs) = handleMissingField behavior (seen @ [k]))
   \<and> (map_of m k = Some y \<longrightarrow>
        selectKeys behavior seen (k # keys) (VMap m) = selectKeys behavior (seen @ [k]) keys y)
   \<and> (map_of m k = None \<longrightarrow>
        selectKeys behavior seen (k # keys) (VMap m) = handleMissingField behavior (seen @ [k]))
   \<and> handleMissingField ErrorOnMissingField keyPath = Inl (UnknownParameter (Join keyPath ''.''))
   \<and> handleMissingField FalseOnMissingField keyPath = Inr (VBool False)
   \<and> handleMissingField NilOnMissingField keyPath = Inr VNil"
  using selector_in_bounds [of behavior c] selector_out_of_bounds [of _ c] base_policy [of c]
    selectKeys_non_integer [of ErrorOnMissingField] selectKeys_list_strict [of seen k xs x]
    selectKeys_list_found [of k idx xs behavior seen keys] selectKeys_list_missing [of k xs behavior seen keys]
    selectKeys_map_found [of m k y behavior seen keys] selectKeys_map_missing [of m k behavior seen keys]
  by (simp add: handleMissingField_cases)

text \<open>The hypotheses of C7's theorem hold for keys of the list \<open>[10, 20]\<close> and of a map.\<close>

theorem C7_selector_resolution_witness:
  "selectKeys ErrorOnMissingField [''a'', ''b''] [''1''] (VList [VNum (Fin 10), VNum (Fin 20)]) = Inr (VNum (Fin 20))
   \<and> selectKeys FalseOnMissingField [''a'', ''b''] [''5''] (VList [VNum (Fin 10), VNum (Fin 20)]) = Inr (VBool False)
   \<and> selectKeys NilOnMissingField [''a'', ''b''] [''-1''] (VList [VNum (Fin 10), VNum (Fin 20)]) = Inr VNil
   \<and> selectKeys ErrorOnMissingField [''a'', ''b''] [''x''] (VList [VNum (Fin 10), VNum (Fin 20)])
       = Inl (UnknownParameter ''a.b.x'')
   \<and> selectKeys ErrorOnMissingField [] [''a''] (VMap [(''a'', VNum (Fin 1))]) = Inr (VNum (Fin 1))
   \<and> selectKeys ErrorOnMissingField [] [''z''] (VMap [(''a'', VNum (Fin 1))]) = Inl (UnknownParameter ''z'')"
proof -
  have a1: "Atoi ''1'' = Some 1" and a5: "Atoi ''5'' = Some 5" and am: "Atoi ''-1'' = Some (- 1)"
    and ax: "Atoi ''x'' = None"
    by (simp_all add: Atoi_def isDigit_def digitsValue_def digitValue_def)
  let ?xs = "[VNum (Fin 10), VNum (Fin 20)]"
  from C7_selector_resolution [where k = "''1''" and idx = 1 and xs = ?xs and behavior = ErrorOnMissingField
      and seen = "[''a'', ''b'']" and keys = "[]"] a1
  have w1: "selectKeys ErrorOnMissingField [''a'', ''b''] [''1''] (VList ?xs) = Inr (VNum (Fin 20))" by simp
  from C7_selector_resolution [where k = "''5''" and xs = ?xs and behavior = FalseOnMissingField
      and seen = "[''a'', ''b'']" and keys = "[]" and keyPath = "[''a'', ''b'', ''5'']"] a5
  have w2: "selectKeys FalseOnMissingField [''a'', ''b''] [''5''] (VList ?xs) = Inr (VBool False)" by simp
  from C7_selector_resolution [where k = "''-1''" and xs = ?xs and behavior = NilOnMissingField
      and seen = "[''a'', ''b'']" and keys = "[]" and keyPath = "[''a'', ''b'', ''-1'']"] am
  have w3: "selectKeys NilOnMissingField [''a'', ''b''] [''-1''] (VList ?xs) = Inr VNil" by simp
  from C7_selector_resolution [where k = "''x''" and xs = ?xs and behavior = ErrorOnMissingField
      and seen = "[''a'', ''b'']" and keys = "[]" and keyPath = "[''a'', ''b'', ''x'']"] ax
  have w4: "selectKeys ErrorOnMissingField [''a'', ''b''] [''x''] (VList ?xs) = Inl (UnknownParameter ''a.b.x'')" by simp
  from C7_selector_resolution [where k = "''a''" and m = "[(''a'', VNum (Fin 1))]" and y = "VNum (Fin 1)"
      and behavior = ErrorOnMissingField and seen = "[]" and keys = "[]"]
  have w5: "selectKeys ErrorOnMissingField [] [''a''] (VMap [(''a'', VNum (Fin 1))]) = Inr (VNum (Fin 1))" by simp
  from C7_selector_resolution [where k = "''z''" and m = "[(''a'', VNum (Fin 1))]"
      and behavior = ErrorOnMissingField and seen = "[]" and keys = "[]" and keyPath = "[''z'']"]
  have w6: "selectKeys ErrorOnMissingField [] [''z''] (VMap [(''a'', VNum (Fin 1))]) = Inl (UnknownParameter ''z'')"
    by simp
  from w1 w2 w3 w4 w5 w6 show ?thesis by blast
qed


section \<open>Set membership and tolerant equality\<close>

subsection \<open>C8: the operator \<open>in\<close>\<close>

lemma inArray_loop_iff: "inArray_loop a col = Inr (VBool (\<exists>x\<in>set col. DeepEqual a x))"
  by (induction col) auto

lemma inArray_list: "inArray a (VList col) = Inr (VBool (\<exists>x\<in>set col. DeepEqual a x))"
  by (simp add: inArray_def inArray_loop_iff)

lemma inArray_other: "\<forall>xs. b \<noteq> VList xs \<Longrightarrow> inArray a b = Inl (TypeError (typeName b))"
  by (cases b) (simp_all add: inArray_def)

lemma full_in: "map_of (operators full) ''in'' = Some (OpInfix inArray)"
  by (simp add: full_tables)

text \<open>
  C8: when the right operand of \<open>in\<close> is an ordered sequence, that is the generic list
  \<open>[]interface{}\<close> which array literals evaluate to, the result is \<open>true\<close> if and only
  if some element of the sequence is deeply equal to the left operand. Every other right
  operand is a type error that names its type. In \<open>full\<close> the operator \<open>in\<close> is
  \<open>inArray\<close>; \<open>3 in [1,2,3]\<close> is \<open>true\<close>, \<open>4 in [1,2,3]\<close> is \<open>false\<close> and \<open>4 in 3\<close> is a
  type error.
\<close>

theorem C8_in_operator:
  "inArray a (VList col) = Inr (VBool (\<exists>x\<in>set col. DeepEqual a x))
   \<and> ((\<forall>xs. b \<noteq> VList xs) \<longrightarrow> inArray a b = Inl (TypeError (typeName b)))
   \<and> map_of (operators full) ''in'' = Some (OpInfix inArray)
   \<and> Evaluate full 30 ''3 in [1,2,3]'' c v = Inr (VBool True)
   \<and> Evaluate full 30 ''4 in [1,2,3]'' c v = Inr (VBool False)
   \<and> Evaluate full 30 ''4 in 3'' c v = Inl (TypeError ''float64'')"
  using inArray_list [of a col] inArray_other [of b a] full_in full_in_true [of c v] full_in_false [of c v]
    full_in_number [of c v]
  by blast

text \<open>The hypothesis of C8's theorem holds for a number and for a map as right operand.\<close>

theorem C8_in_operator_witness:
  "inArray (VNum (Fin 3)) (VList [VNum (Fin 1), VNum (Fin 2), VNum (Fin 3)]) = Inr (VBool True)
   \<and> inArray (VNum (Fin 4)) (VList [VNum (Fin 1), VNum (Fin 2), VNum (Fin 3)]) = Inr (VBool False)
   \<and> inArray (VNum (Fin 4)) (VNum (Fin 3)) = Inl (TypeError ''float64'')
   \<and> inArray (VNum (Fin 4)) (VMap [(''k'', VNum (Fin 4))]) = Inl (TypeError ''map[string]interface {}'')"
  using
    C8_in_operator [where a = "VNum (Fin 3)" and col = "[VNum (Fin 1), VNum (Fin 2), VNum (Fin 3)]"
      and b = "VNum (Fin 3)"]
    C8_in_operator [where a = "VNum (Fin 4)" and col = "[VNum (Fin 1), VNum (Fin 2), VNum (Fin 3)]"
      and b = "VNum (Fin 3)"]
    C8_in_operator [where a = "VNum (Fin 4)" and b = "VMap [(''k'', VNum (Fin 4))]"]
  by (simp add: feq_def typeName_def)

subsection \<open>C9: equality in \<open>TolerantFull\<close>\<close>

lemma enhanced_nil_false:
  "(a c v = Inr VNil \<and> b c v = Inr (VBool False)) \<or> (a c v = Inr (VBool False) \<and> b c v = Inr VNil) \<Longrightarrow>
   enhancedEqual a b c v = Inr (VBool True) \<and> enhancedNotEqual a b c v = Inr (VBool False)"
  by (auto simp: enhancedEqual_def enhancedNotEqual_def)

lemma enhanced_nil_nil:
  "a c v = Inr VNil \<and> b c v = Inr VNil \<Longrightarrow>
   enhancedEqual a b c v = Inr (VBool True) \<and> enhancedNotEqual a b c v = Inr (VBool False)"
  by (simp add: enhancedEqual_def enhancedNotEqual_def)

lemma enhanced_false_false:
  "a c v = Inr (VBool False) \<and> b c v = Inr (VBool False) \<Longrightarrow>
   enhancedEqual a b c v = Inr (VBool True) \<and> enhancedNotEqual a b c v = Inr (VBool False)"
  by (simp add: enhancedEqual_def enhancedNotEqual_def)

text \<open>
  \<open>TolerantFull\<close> composes \<open>enhancedComparisons\<close> last, so its \<open>==\<close> and \<open>!=\<close> are the
  operators of \<open>enhancedComparisons\<close> whatever the languages before it register.
\<close>

lemma operators_of_last_language:
  "map_of (operators (NewLanguage (ls @ [l]))) name =
     (case map_of (operators l) name of
        Some d \<Rightarrow> Some d
      | None \<Rightarrow> map_of (operators (NewLanguage ls)) name)"
  by (simp add: NewLanguage_def merge_def map_add_def split: option.splits)

lemma enhancedComparisons_last:
  "map_of (operators (NewLanguage (ls @ [enhancedComparisons]))) ''==''
     = Some (OpDirectInfix (\<lambda>a b. Inr (enhancedEqual a b)))"
  "map_of (operators (NewLanguage (ls @ [enhancedComparisons]))) ''!=''
     = Some (OpDirectInfix (\<lambda>a b. Inr (enhancedNotEqual a b)))"
  by (simp_all add: operators_of_last_language enhancedComparisons_def language_defs)

lemma missing_field_is_false:
  "missingFieldSelector FalseOnMissingField [Const (VStr k)] c (VMap []) = Inr (VBool False)"
  by (simp add: missingFieldSelector_def EvalString_def Const_def toText_def handleMissingField_def)

text \<open>
  C9: for every context and input, when one operand of the \<open>==\<close> of \<open>enhancedComparisons\<close>
  evaluates to \<open>nil\<close> and the other to \<open>false\<close>, the result is \<open>true\<close> and that of
  \<open>!=\<close> is \<open>false\<close>; likewise for \<open>nil\<close> and \<open>nil\<close> and for \<open>false\<close> and \<open>false\<close>. A
  composition that ends with \<open>enhancedComparisons\<close>, as \<open>TolerantFull\<close> does, resolves
  \<open>==\<close> and \<open>!=\<close> to these operators. A missing field, which the selector of
  \<open>TolerantFull\<close> replaces by \<open>false\<close>, is equal to \<open>nil\<close>.
\<close>

theorem C9_tolerant_equality:
  "((a c v = Inr VNil \<and> b c v = Inr (VBool False)) \<or> (a c v = Inr (VBool False) \<and> b c v = Inr VNil)
      \<longrightarrow> enhancedEqual a b c v = Inr (VBool True) \<and> enhancedNotEqual a b c v = Inr (VBool False))
   \<and> (a c v = Inr VNil \<and> b c v = Inr VNil
      \<longrightarrow> enhancedEqual a b c v = Inr (VBool True) \<and> enhancedNotEqual a b c v = Inr (VBool False))
   \<and> (a c v = Inr (VBool False) \<and> b c v = Inr (VBool False)
      \<longrightarrow> enhancedEqual a b c v = Inr (VBool True) \<and> enhancedNotEqual a b c v = Inr (VBool False))
   \<and> map_of (operators (NewLanguage (ls @ [enhancedComparisons]))) ''==''
      = Some (OpDirectInfix (\<lambda>a b. Inr (enhancedEqual a b)))
   \<and> map_of (operators (NewLanguage (ls @ [enhancedComparisons]))) ''!=''
      = Some (OpDirectInfix (\<lambda>a b. Inr (enhancedNotEqual a b)))
   \<and> enhancedEqual (missingFieldSelector FalseOnMissingField [Const (VStr k)]) (Const VNil) c (VMap [])
      = Inr (VBool True)"
proof -
  have "Const VNil c (VMap []) = Inr VNil" by (simp add: Const_def)
  with missing_field_is_false [of k c]
  have "enhancedEqual (missingFieldSelector FalseOnMissingField [Const (VStr k)]) (Const VNil) c (VMap [])
      = Inr (VBool True)"
    using enhanced_nil_false [of "missingFieldSelector FalseOnMissingField [Const (VStr k)]" c "VMap []" "Const VNil"]
    by blast
  then show ?thesis
    using enhanced_nil_false [of a c v b] enhanced_nil_nil [of a c v b] enhanced_false_false [of a c v b]
      enhancedComparisons_last [of ls]
    by blast
qed

text \<open>The hypotheses of C9's theorem hold for constant operands.\<close>

theorem C9_tolerant_equality_witness:
  "enhancedEqual (Const VNil) (Const (VBool False)) (Context False) VNil = Inr (VBool True)
   \<and> enhancedNotEqual (Const VNil) (Const (VBool False)) (Context False) VNil = Inr (VBool False)
   \<and> enhancedEqual (Const (VBool False)) (Const VNil) (Context False) VNil = Inr (VBool True)
   \<and> enhancedEqual (Const VNil) (Const VNil) (Context False) VNil = Inr (VBool True)
   \<and> enhancedEqual (Const (VBool False)) (Const (VBool False)) (Context False) VNil = Inr (VBool True)"
  using
    C9_tolerant_equality [where a = "Const VNil" and b = "Const (VBool False)" and c = "Context False" and v = VNil]
    C9_tolerant_equality [where b = "Const VNil" and a = "Const (VBool False)" and c = "Context False" and v = VNil]
    C9_tolerant_equality [where a = "Const VNil" and b = "Const VNil" and c = "Context False" and v = VNil]
    C9_tolerant_equality [where a = "Const (VBool False)" and b = "Const (VBool False)" and c = "Context False"
      and v = VNil]
  by (simp add: Const_def)


end
